theory Spec2Isabelle
  imports Main "HOL-Library.Word" "HOL-Library.AList"
begin

section \<open>Data model of the folder-branch operations engine\<close>

text \<open>
  The engine of \<^verbatim>\<open>libkbfs/folder_branch_ops.go\<close> is embedded as pure functions over an
  explicit state record \<open>fbo\<close>. Collaborators that the engine only calls through
  interfaces (metadata store, crypto, key manager, identity service, block operations)
  are an environment record \<open>env\<close> of result functions; every call to one of them that a
  property talks about is also appended to the \<open>trace\<close> of the engine. Go errors and
  runtime panics are values of the datatype \<open>error\<close>.
\<close>

type_synonym BlockID = nat
type_synonym UID = nat
type_synonym TlfID = nat
type_synonym BranchID = nat
type_synonym MdID = nat
type_synonym byte = "8 word"
type_synonym MetadataRevision = "64 word"

text \<open>\<^verbatim>\<open>type mdReqType int\<close> with its three constants.\<close>

datatype mdReqType = mdReadNoIdentify | mdReadNeedIdentify | mdWrite

text \<open>\<^verbatim>\<open>type state int\<close>: \<open>cleanState\<close> and \<open>dirtyState\<close>.\<close>

datatype state = cleanState | dirtyState

text \<open>\<^verbatim>\<open>type syncBlockState int\<close>; the zero value is \<open>blockNotBeingSynced\<close>.\<close>

datatype syncBlockState = blockNotBeingSynced | blockSyncingNotDirty | blockSyncingAndDirty

datatype BranchName = MasterBranch | OtherBranch nat

record FolderBranch =
  Tlf :: TlfID
  Branch :: BranchName

record BlockPointer =
  ID :: BlockID
  KeyGen :: int
  DataVer :: int
  Creator :: UID
  Writer :: UID
  RefNonce :: nat

definition zeroPtr :: BlockPointer where
  "zeroPtr = \<lparr>ID = 0, KeyGen = 0, DataVer = 0, Creator = 0, Writer = 0, RefNonce = 0\<rparr>"

definition zeroBlockRefNonce :: nat where
  "zeroBlockRefNonce = 0"

record BlockInfo =
  BlockPointer :: BlockPointer
  EncodedSize :: nat

datatype EntryType = File | Exec | Dir | Sym

record DirEntry =
  de_BlockInfo :: BlockInfo
  Type :: EntryType
  Size :: nat
  Mtime :: int
  Ctime :: int

record pathNode =
  pn_BlockPointer :: BlockPointer
  Name :: string

text \<open>\<^verbatim>\<open>path\<close>: a folder-branch and the list of path nodes from the root.\<close>

record path =
  p_FolderBranch :: FolderBranch
  path_nodes :: "pathNode list"

record IndirectFilePtr =
  ifp_BlockInfo :: BlockInfo
  Off :: int

record FileBlock =
  IsInd :: bool
  Contents :: "byte list"
  IPtrs :: "IndirectFilePtr list"

record DirBlock =
  Children :: "string \<rightharpoonup> DirEntry"

datatype Block = FileBlk FileBlock | DirBlk DirBlock | CommonBlk

text \<open>
  Errors. \<open>GenericError\<close> is an error made with \<^verbatim>\<open>errors.New\<close> or \<^verbatim>\<open>fmt.Errorf\<close>
  (it has no distinguishable type), \<open>CollabError\<close> is any error handed back by a
  collaborator, and \<open>Panic\<close> is a Go runtime panic (index out of range, nil dereference).
\<close>

datatype error =
    MDWriteNeededInRequest
  | WrongOpsError FolderBranch FolderBranch
  | InvalidPathError
  | InvalidParentPathError
  | InvalidBlockPointerError
  | NotFileBlockError
  | NotDirBlockError
  | NoSuchNameError string
  | RenameAcrossDirsError
  | NotPermittedWhileDirtyError
  | MDUpdateApplyError MetadataRevision MetadataRevision
  | MDUpdateInvertError MetadataRevision MetadataRevision
  | MDServerErrorConflictRevision
  | MDServerErrorConflictPrevRoot
  | MDServerErrorConflictDiskUsage
  | MDServerErrorConditionFailed
  | ReadAccessError
  | WriteAccessError
  | InvalidKeyGenerationError
  | FileTooBigError
  | BadSplitError
  | InconsistentEncodedSizeError
  | GenericError string
  | CollabError nat
  | Panic string

text \<open>
  Modelled from the spec: the semantic operations stored in a revision, whose types are
  declared outside the engine's file. Kept is what the engine reads of an op: the kind;
  the update records (old pointer, new pointer) that \<^verbatim>\<open>AllUpdates\<close> gives; the referenced
  and the unreferenced pointers; for a sync op the recorded writes (offset, length; a
  truncate has length 0); for a rename op the triple (\<^verbatim>\<open>OldDir.Ref\<close>, \<^verbatim>\<open>NewDir.Ref\<close>,
  \<^verbatim>\<open>Renamed\<close>); the two pointers of the op's own block update (\<^verbatim>\<open>Dir\<close> of a create, rm
  or setAttr op, \<^verbatim>\<open>File\<close> of a sync op, \<^verbatim>\<open>OldDir\<close> of a rename op) as \<open>opDirUnref\<close>
  and \<open>opDirRef\<close>; \<^verbatim>\<open>NewDir.Unref\<close> of a rename op; the names (\<^verbatim>\<open>OldName\<close>,
  \<^verbatim>\<open>NewName\<close>; the \<^verbatim>\<open>Name\<close> of a setAttr op is \<open>opOldName\<close>); and the attribute a
  setAttr op changes.
\<close>

datatype opKind = createOp | rmOp | renameOp | syncOp | setAttrOp | gcOp

datatype attrChange = exAttr | mtimeAttr

record op =
  opKind :: opKind
  opUpdates :: "(BlockPointer \<times> BlockPointer) list"
  opRefs :: "BlockPointer list"
  opUnrefs :: "BlockPointer list"
  Writes :: "(nat \<times> nat) list"
  opRename :: "(BlockPointer \<times> BlockPointer \<times> BlockPointer) option"
  opDirUnref :: BlockPointer
  opDirRef :: BlockPointer
  opNewDirUnref :: BlockPointer
  opOldName :: string
  opNewName :: string
  opAttr :: attrChange

text \<open>
  \<^verbatim>\<open>NodeChange\<close>, what an observer is told about one node (here its id): the names
  updated in a directory, or the ranges written in a file.
\<close>

record NodeChange =
  nc_Node :: nat
  DirUpdated :: "string list"
  FileUpdated :: "(nat \<times> nat) list"

text \<open>
  \<^verbatim>\<open>BlockChanges\<close>: the op list and the info of the block that holds the changes when
  they are not embedded. A Go nil slice is \<open>None\<close>.
\<close>

record BlockChanges =
  Info :: BlockInfo
  Ops :: "op list option"

text \<open>
  \<^verbatim>\<open>RootMetadata\<close>. The fields the engine reads or writes are kept; the predicates that
  its methods compute from key bundles and flags outside this file
  (\<^verbatim>\<open>IsInitialized\<close>, \<^verbatim>\<open>IsReadable\<close>, \<^verbatim>\<open>MergedStatus\<close>, \<^verbatim>\<open>IsRekeySet\<close>,
  \<^verbatim>\<open>IsWriterMetadataCopiedSet\<close>, the handle's reader and writer lists) are fields too.
\<close>

record RootMetadata =
  md_ID :: TlfID
  BID :: BranchID
  Revision :: MetadataRevision
  PrevRoot :: MdID
  RefBytes :: nat
  UnrefBytes :: nat
  DiskUsage :: nat
  data_Dir :: DirEntry
  Changes :: BlockChanges
  cachedChanges :: BlockChanges
  mdId :: MdID
  md_Unmerged :: bool
  md_Initialized :: bool
  md_Readable :: bool
  md_RekeySet :: bool
  md_WriterMetadataCopied :: bool
  md_Writers :: "UID list"
  md_Readers :: "UID list"
  md_LatestKeyGen :: int

definition NullBranchID :: BranchID where
  "NullBranchID = 0"

definition NullMDId :: MdID where
  "NullMDId = 0"

text \<open>\<^verbatim>\<open>MetadataRevisionUninitialized\<close> is the zero revision.\<close>

definition MetadataRevisionUninitialized :: MetadataRevision where
  "MetadataRevisionUninitialized = 0"


section \<open>Collaborators, trace and engine state\<close>

text \<open>
  Results of the collaborator interfaces (\<^verbatim>\<open>Config\<close> and what it hands out). Each
  field is the result the collaborator gives back for the arguments shown. The
  implementation of none of them is part of the engine.
\<close>

record env =
  e_GetCurrentUID :: "error + UID"
  e_GetUnmergedForTLF :: "error + RootMetadata option"
  e_GetForTLF :: "error + RootMetadata"
  e_identifyHandle :: "RootMetadata \<Rightarrow> error option"
  e_Hash :: "RootMetadata \<Rightarrow> error + MdID"
  e_MDCachePut :: "RootMetadata \<Rightarrow> error option"
  e_MDPut :: "RootMetadata \<Rightarrow> error option"
  e_PutUnmerged :: "RootMetadata \<Rightarrow> BranchID \<Rightarrow> error option"
  e_MakeRandomBranchID :: "error + BranchID"
  e_PruneBranch :: "TlfID \<Rightarrow> BranchID \<Rightarrow> error option"
  e_MakeSuccessor :: "RootMetadata \<Rightarrow> error + RootMetadata"
  e_initMD :: "RootMetadata \<Rightarrow> error + RootMetadata"
  e_BlockCachePut :: "BlockPointer \<Rightarrow> error option"
  e_reembed :: "RootMetadata \<Rightarrow> error + BlockChanges"
  e_invertOp :: "op \<Rightarrow> op"
  e_getMergedMDUpdates :: "MetadataRevision \<Rightarrow> error + RootMetadata list"
  e_BlockGet :: "BlockPointer \<Rightarrow> error + Block"
  e_PutDirty :: "BlockPointer \<Rightarrow> error option"
  e_DeleteDirty :: "BlockPointer \<Rightarrow> error option"
  e_MaxBlockSize :: nat
  e_CheckSplit :: "FileBlock \<Rightarrow> int"
  e_Ready :: "Block \<Rightarrow> error + (BlockID \<times> nat \<times> nat)"
  e_CheckForKnownPtr :: "FileBlock \<Rightarrow> error + BlockPointer"
  e_MakeBlockRefNonce :: "error + nat"
  e_BlockPut :: "BlockPointer \<Rightarrow> error option"
  e_ShouldEmbedBlockChanges :: "BlockChanges \<Rightarrow> bool"
  e_Encode :: "BlockChanges \<Rightarrow> error + byte list"
  e_Move :: "BlockPointer \<Rightarrow> nat \<Rightarrow> string \<Rightarrow> error option"
  e_searchInDir :: "BlockPointer \<Rightarrow> op \<Rightarrow> nat option"
  e_DataVersion :: int
  e_MaxFileBytes :: nat
  e_Now :: int

text \<open>
  Calls that leave the engine, in the order they are made. \<open>EvBatchChanges\<close> and
  \<open>EvLocalChange\<close> are the calls \<^verbatim>\<open>BatchChanges\<close> and \<^verbatim>\<open>LocalChange\<close> on one observer;
  \<open>EvNotifyOneOp\<close> only marks that an op of a revision went through
  \<^verbatim>\<open>notifyOneOpLocked\<close>, whether or not anything reached an observer.
\<close>

datatype event =
    EvGetUnmergedForTLF
  | EvGetForTLF
  | EvIdentify
  | EvMDCachePut MetadataRevision
  | EvMDPut RootMetadata
  | EvPutUnmerged RootMetadata BranchID
  | EvMakeRandomBranchID
  | EvPruneBranch TlfID BranchID
  | EvResolve MetadataRevision MetadataRevision
  | EvRekeyEnqueue TlfID
  | EvRegisterForUpdates
  | EvUpdatePointer BlockPointer BlockPointer
  | EvNotifyOneOp op MetadataRevision
  | EvBatchChanges nat "NodeChange list"
  | EvUnlink BlockPointer "pathNode list"
  | EvMove BlockPointer nat string
  | EvLocalChange nat nat "nat \<times> nat"
  | EvDeleteDirty BlockPointer
  | EvReplay path
  | EvLockMDWriter
  | EvUnlockMDWriter
  | EvSleep

text \<open>
  \<^verbatim>\<open>blockPutState\<close>, \<^verbatim>\<open>syncInfo\<close>, and a deferred write as a value: the Go closure captures a copy of the
  data and the offset (write) or the size (truncate).
\<close>

record blockState =
  blockPtr :: BlockPointer
  block :: Block
  readyBlockData :: nat

type_synonym blockPutState = "blockState list"

record syncInfo =
  oldInfo :: BlockInfo
  si_op :: op
  unrefs :: "BlockInfo list"
  si_bps :: "blockPutState option"
  si_refBytes :: nat
  si_unrefBytes :: nat

datatype deferredWrite = DeferredWriteData "byte list" int | DeferredTruncate nat

text \<open>
  \<^verbatim>\<open>folderBranchOps\<close>. The two-level Go map \<open>deCache\<close> is an association list of
  association lists, because the engine iterates over it and takes its length.

  Modelled from the spec: the block cache, which is not part of the engine's file. It maps
  a pointer to a block in one of three kinds of entry: dirty, transient and permanent.
  The dirty entries are a namespace of their own, looked up first; permanent entries are
  removed by block id, as \<^verbatim>\<open>DeletePermanent(ptr.ID)\<close> in the engine shows, so they are
  keyed by id. The branch is always the engine's own and is left out of the keys.
  \<open>tempIDs\<close> is the stream of random ids that \<^verbatim>\<open>MakeTemporaryBlockID\<close> hands out.

  Modelled from the spec: the node cache, which is not part of the engine's file. It
  keeps for every node handle (here its id) the chain of path nodes from the root
  (\<open>nodeCache\<close>), and for every pointer the live node it has for it (\<open>nodeIndex\<close>, what
  \<^verbatim>\<open>Get\<close> looks up); \<^verbatim>\<open>updatePointer\<close> rewrites all references to a pointer.

  \<open>observers\<close> are the observers registered with \<^verbatim>\<open>RegisterForChanges\<close>, by id.
\<close>

record fbo =
  folderBranch :: FolderBranch
  bid :: BranchID
  head :: "RootMetadata option"
  staged :: bool
  st :: state
  identifyDone :: bool
  fileBlockStates :: "BlockPointer \<Rightarrow> syncBlockState"
  deferredWrites :: "deferredWrite list"
  deferredDirtyDeletes :: "BlockPointer list"
  doDeferWrite :: bool
  unrefCache :: "BlockPointer \<rightharpoonup> syncInfo"
  deCache :: "(BlockPointer \<times> (BlockPointer \<times> DirEntry) list) list"
  dirtyCache :: "BlockPointer \<rightharpoonup> Block"
  transientCache :: "BlockPointer \<rightharpoonup> Block"
  permanentCache :: "BlockID \<rightharpoonup> Block"
  tempIDs :: "BlockID list"
  nodeCache :: "nat \<Rightarrow> pathNode list"
  nodeIndex :: "BlockPointer \<rightharpoonup> nat"
  observers :: "nat list"
  trace :: "event list"

definition emit :: "event \<Rightarrow> fbo \<Rightarrow> fbo" where
  "emit ev s = s\<lparr>trace := trace s @ [ev]\<rparr>"

section \<open>Head management and metadata acquisition\<close>

text \<open>\<^verbatim>\<open>getState\<close>, \<^verbatim>\<open>transitionState\<close> and \<^verbatim>\<open>setStagedLocked\<close>.\<close>

definition getState :: "fbo \<Rightarrow> state" where
  "getState s = st s"

definition transitionState :: "state \<Rightarrow> fbo \<Rightarrow> fbo" where
  "transitionState newState s =
     (case newState of
        cleanState \<Rightarrow> (if length (deCache s) > 0 then s else s\<lparr>st := newState\<rparr>)
      | dirtyState \<Rightarrow> s\<lparr>st := newState\<rparr>)"

definition setStagedLocked :: "bool \<Rightarrow> BranchID \<Rightarrow> fbo \<Rightarrow> fbo" where
  "setStagedLocked stg b s = s\<lparr>staged := stg, bid := b\<rparr>"

text \<open>
  \<^verbatim>\<open>RootMetadata.MetadataID\<close> (here from \<^verbatim>\<open>data_types.go\<close>): the cached id when there is
  one, else the hash of the encoding, which is then cached in the object.
\<close>

definition MetadataID :: "env \<Rightarrow> RootMetadata \<Rightarrow> error + (MdID \<times> RootMetadata)" where
  "MetadataID e md =
     (if mdId md \<noteq> NullMDId then Inr (mdId md, md)
      else case e_Hash e md of
             Inl err \<Rightarrow> Inl err
           | Inr h \<Rightarrow> Inr (h, md\<lparr>mdId := h\<rparr>))"

text \<open>
  \<^verbatim>\<open>setHeadLocked\<close>. The result is the error, if any. When a head exists and has the
  same metadata id as the new object, nothing is installed.
\<close>

definition setHeadLocked :: "env \<Rightarrow> RootMetadata \<Rightarrow> fbo \<Rightarrow> error option \<times> fbo" where
  "setHeadLocked e md0 s =
     (let install = (\<lambda>md s1.
        (let s2 = emit (EvMDCachePut (Revision md)) s1 in
         case e_MDCachePut e md of
           Some err \<Rightarrow> (Some err, s2)
         | None \<Rightarrow>
            (let isFirstHead = (head s = None);
                 s3 = (if isFirstHead \<and> md_Unmerged md
                       then emit (EvResolve (Revision md) MetadataRevisionUninitialized)
                              (setStagedLocked True (BID md) s2)
                       else s2);
                 s4 = s3\<lparr>head := Some md\<rparr>;
                 s5 = (if isFirstHead \<and> Branch (folderBranch s) = MasterBranch
                       then emit EvRegisterForUpdates s4 else s4)
             in (None, s5)))) in
      case head s of
        None \<Rightarrow> install md0 s
      | Some h \<Rightarrow>
         (case MetadataID e md0 of
            Inl err \<Rightarrow> (Some err, s)
          | Inr (mdID, md) \<Rightarrow>
             (case MetadataID e h of
                Inl err \<Rightarrow> (Some err, s)
              | Inr (headID, h') \<Rightarrow>
                 (let s1 = s\<lparr>head := Some h'\<rparr> in
                  if headID = mdID then (None, s1) else install md s1))))"

text \<open>\<^verbatim>\<open>identifyOnce\<close>: runs the identify unless it already succeeded once.\<close>

definition identifyOnce :: "env \<Rightarrow> RootMetadata \<Rightarrow> fbo \<Rightarrow> error option \<times> fbo" where
  "identifyOnce e md s =
     (if identifyDone s then (None, s)
      else (let s1 = emit EvIdentify s in
            case e_identifyHandle e md of
              Some err \<Rightarrow> (Some err, s1)
            | None \<Rightarrow> (None, s1\<lparr>identifyDone := True\<rparr>)))"

text \<open>
  \<^verbatim>\<open>initMDLocked\<close> creates the root directory block of a new folder, puts it and the
  first revision, and installs the head. Keys, the readied block and the puts are the
  collaborators' work: \<open>e_initMD\<close> is the metadata object after them, or their error. The
  engine's own part is the check that no head exists yet and the installation.
\<close>

definition initMDLocked :: "env \<Rightarrow> RootMetadata \<Rightarrow> fbo \<Rightarrow> error option \<times> fbo" where
  "initMDLocked e md s =
     (case e_initMD e md of
        Inl err \<Rightarrow> (Some err, s)
      | Inr md' \<Rightarrow>
         (let s1 = emit (EvMDPut md') s in
          case e_MDPut e md' of
            Some err \<Rightarrow> (Some err, s1)
          | None \<Rightarrow>
             (if head s1 \<noteq> None
              then (Some (GenericError ''Unexpected MD ID during new MD initialization''), s1)
              else setHeadLocked e md' s1)))"

text \<open>
  \<^verbatim>\<open>getMDLocked\<close>. The deferred function runs the identify when the body returned no
  error and the request is not \<open>mdReadNoIdentify\<close>. Go returns the pair (md, err); all
  callers drop md when err is set, so the result is a sum.
\<close>

definition getMDLocked_body :: "env \<Rightarrow> mdReqType \<Rightarrow> fbo \<Rightarrow> (error + RootMetadata) \<times> fbo" where
  "getMDLocked_body e rtype s =
     (case head s of
        Some md \<Rightarrow> (Inr md, s)
      | None \<Rightarrow>
         if rtype \<noteq> mdWrite then (Inl MDWriteNeededInRequest, s)
         else
          (let s1 = emit EvGetUnmergedForTLF s in
           case e_GetUnmergedForTLF e of
             Inl err \<Rightarrow> (Inl err, s1)
           | Inr mdo \<Rightarrow>
              (let fetched =
                 (case mdo of
                    Some md \<Rightarrow> (Inr md, s1)
                  | None \<Rightarrow>
                     (let s2 = emit EvGetForTLF s1 in
                      case e_GetForTLF e of
                        Inl err \<Rightarrow> (Inl err, s2)
                      | Inr md \<Rightarrow> (Inr md, s2)))
               in case fetched of
                    (Inl err, s2) \<Rightarrow> (Inl err, s2)
                  | (Inr md, s2) \<Rightarrow>
                     if Type (data_Dir md) \<noteq> Dir \<and> (\<not> md_Initialized md \<or> md_Readable md)
                     then (case initMDLocked e md s2 of
                             (Some err, s3) \<Rightarrow> (Inl err, s3)
                           | (None, s3) \<Rightarrow>
                               (case head s3 of Some h \<Rightarrow> (Inr h, s3) | None \<Rightarrow> (Inr md, s3)))
                     else (case setHeadLocked e md s2 of
                             (Some err, s3) \<Rightarrow> (Inl err, s3)
                           | (None, s3) \<Rightarrow> (Inr md, s3)))))"

definition getMDLocked :: "env \<Rightarrow> mdReqType \<Rightarrow> fbo \<Rightarrow> (error + RootMetadata) \<times> fbo" where
  "getMDLocked e rtype s =
     (case getMDLocked_body e rtype s of
        (Inl err, s1) \<Rightarrow> (Inl err, s1)
      | (Inr md, s1) \<Rightarrow>
          if rtype = mdReadNoIdentify then (Inr md, s1)
          else (case identifyOnce e md s1 of
                  (Some err, s2) \<Rightarrow> (Inl err, s2)
                | (None, s2) \<Rightarrow> (Inr md, s2)))"

text \<open>
  \<^verbatim>\<open>execMDReadNoIdentifyThenMDWrite\<close>: run \<open>f\<close> as a read; when it fails with
  \<open>MDWriteNeededInRequest\<close>, take the writer lock and run it again as a write.
\<close>

definition execMDReadNoIdentifyThenMDWrite ::
  "(mdReqType \<Rightarrow> fbo \<Rightarrow> error option \<times> fbo) \<Rightarrow> fbo \<Rightarrow> error option \<times> fbo" where
  "execMDReadNoIdentifyThenMDWrite f s =
     (case f mdReadNoIdentify s of
        (Some MDWriteNeededInRequest, s1) \<Rightarrow>
          (case f mdWrite (emit EvLockMDWriter s1) of
             (err, s2) \<Rightarrow> (err, emit EvUnlockMDWriter s2))
      | (err, s1) \<Rightarrow> (err, s1))"

text \<open>The use \<^verbatim>\<open>getRootNode\<close> makes of it: the function it passes calls \<^verbatim>\<open>getMDLocked\<close>.\<close>

definition getRootNode_md :: "env \<Rightarrow> mdReqType \<Rightarrow> fbo \<Rightarrow> error option \<times> fbo" where
  "getRootNode_md e rtype s =
     (case getMDLocked e rtype s of
        (Inl err, s1) \<Rightarrow> (Some err, s1)
      | (Inr md, s1) \<Rightarrow> (None, s1))"


section \<open>Paths, directory blocks and nodes\<close>

text \<open>
  \<^verbatim>\<open>stripBP\<close> copies every field but the writer. Lookups in the two-level map
  \<open>deCache\<close> go through \<open>map_of\<close>.
\<close>

definition stripBP :: "BlockPointer \<Rightarrow> BlockPointer" where
  "stripBP ptr = \<lparr>ID = ID ptr, KeyGen = KeyGen ptr, DataVer = DataVer ptr,
                  Creator = Creator ptr, Writer = 0, RefNonce = RefNonce ptr\<rparr>"

text \<open>
  Modelled from the spec: paths, whose type is declared outside the engine's file. A valid
  path has at least one node; its tail is the last node, its parent path drops it.
\<close>

definition isValid :: "path \<Rightarrow> bool" where
  "isValid p = (length (path_nodes p) \<ge> 1)"

definition hasValidParent :: "path \<Rightarrow> bool" where
  "hasValidParent p = (length (path_nodes p) \<ge> 2)"

definition tailPointer :: "path \<Rightarrow> BlockPointer" where
  "tailPointer p = pn_BlockPointer (last (path_nodes p))"

definition tailName :: "path \<Rightarrow> string" where
  "tailName p = Name (last (path_nodes p))"

definition parentPath :: "path \<Rightarrow> path" where
  "parentPath p = p\<lparr>path_nodes := butlast (path_nodes p)\<rparr>"

text \<open>
  Modelled from the spec: a pointer is valid when its id is not the null id (the test
  \<^verbatim>\<open>IsInitialized\<close> of \<^verbatim>\<open>data_types.go\<close>).
\<close>

definition IsValid :: "BlockPointer \<Rightarrow> bool" where
  "IsValid ptr = (ID ptr \<noteq> 0)"

text \<open>
  Modelled from the spec: \<^verbatim>\<open>BlockCache.Get\<close> and \<^verbatim>\<open>IsDirty\<close>. A dirty entry wins over a
  clean one.
\<close>

definition bcache_Get :: "fbo \<Rightarrow> BlockPointer \<Rightarrow> Block option" where
  "bcache_Get s ptr =
     (case dirtyCache s ptr of
        Some b \<Rightarrow> Some b
      | None \<Rightarrow> (case transientCache s ptr of
                   Some b \<Rightarrow> Some b
                 | None \<Rightarrow> permanentCache s (ID ptr)))"

definition IsDirty :: "fbo \<Rightarrow> BlockPointer \<Rightarrow> bool" where
  "IsDirty s ptr = (dirtyCache s ptr \<noteq> None)"

text \<open>
  \<^verbatim>\<open>getBlockHelperLocked\<close>: the block of a pointer, from the cache or from the block
  server; a fetched block is cached as a clean entry when \<open>doCache\<close> is set.
\<close>

definition getBlockHelperLocked ::
  "env \<Rightarrow> BlockPointer \<Rightarrow> bool \<Rightarrow> fbo \<Rightarrow> (error + Block) \<times> fbo" where
  "getBlockHelperLocked e ptr doCache s =
     (if \<not> IsValid ptr then (Inl InvalidBlockPointerError, s)
      else case bcache_Get s ptr of
             Some b \<Rightarrow> (Inr b, s)
           | None \<Rightarrow>
              (case e_BlockGet e ptr of
                 Inl err \<Rightarrow> (Inl err, s)
               | Inr b \<Rightarrow>
                  if doCache then
                    (case e_BlockCachePut e ptr of
                       Some err \<Rightarrow> (Inl err, s)
                     | None \<Rightarrow> (Inr b, s\<lparr>transientCache := (transientCache s)(ptr \<mapsto> b)\<rparr>))
                  else (Inr b, s)))"

text \<open>
  Modelled from the spec: \<^verbatim>\<open>BlockPointer.SetWriter\<close>, which records a writer only when it
  is not the creator.
\<close>

definition SetWriter :: "BlockPointer \<Rightarrow> UID \<Rightarrow> BlockPointer" where
  "SetWriter ptr newWriter =
     (if Creator ptr \<noteq> newWriter then ptr\<lparr>Writer := newWriter\<rparr> else ptr\<lparr>Writer := 0\<rparr>)"

text \<open>
  \<^verbatim>\<open>getDirLocked\<close>, \<^verbatim>\<open>updateDirBlock\<close> and \<^verbatim>\<open>getEntryLocked\<close>: the entry of a file in its
  parent directory, with the pending entries of the de-cache laid over the block. The copy
  that \<^verbatim>\<open>getDirLocked\<close> makes for a write does not change the value.
\<close>

definition getDirLocked ::
  "env \<Rightarrow> path \<Rightarrow> mdReqType \<Rightarrow> fbo \<Rightarrow> (error + DirBlock) \<times> fbo" where
  "getDirLocked e dir rtype s =
     (if \<not> isValid dir then (Inl InvalidPathError, s)
      else case getBlockHelperLocked e (tailPointer dir) True s of
             (Inl err, s') \<Rightarrow> (Inl err, s')
           | (Inr (DirBlk db), s') \<Rightarrow> (Inr db, s')
           | (Inr _, s') \<Rightarrow> (Inl NotDirBlockError, s'))"

definition de_SetWriter :: "DirEntry \<Rightarrow> UID \<Rightarrow> DirEntry" where
  "de_SetWriter de uid =
     de\<lparr>de_BlockInfo := (de_BlockInfo de)\<lparr>BlockPointer :=
          SetWriter (BlockPointer (de_BlockInfo de)) uid\<rparr>\<rparr>"

definition updateDirBlock :: "env \<Rightarrow> path \<Rightarrow> DirBlock \<Rightarrow> fbo \<Rightarrow> DirBlock" where
  "updateDirBlock e dir blk s =
     (case map_of (deCache s) (stripBP (tailPointer dir)) of
        None \<Rightarrow> blk
      | Some deMap \<Rightarrow>
          blk\<lparr>Children := (\<lambda>k.
             case Children blk k of
               None \<Rightarrow> None
             | Some v \<Rightarrow>
                (case map_of deMap (stripBP (BlockPointer (de_BlockInfo v))) of
                   None \<Rightarrow> Some v
                 | Some de \<Rightarrow>
                    (case e_GetCurrentUID e of
                       Inl err \<Rightarrow> Some de
                     | Inr uid \<Rightarrow> Some (de_SetWriter de uid))))\<rparr>)"

definition getEntryLocked ::
  "env \<Rightarrow> path \<Rightarrow> fbo \<Rightarrow> (error + (DirBlock \<times> DirEntry)) \<times> fbo" where
  "getEntryLocked e file s =
     (if \<not> hasValidParent file then (Inl InvalidParentPathError, s)
      else case getDirLocked e (parentPath file) mdWrite s of
             (Inl err, s1) \<Rightarrow> (Inl err, s1)
           | (Inr dblock, s1) \<Rightarrow>
              (let dblock' = updateDirBlock e (parentPath file) dblock s1 in
               case Children dblock' (tailName file) of
                 None \<Rightarrow> (Inl (NoSuchNameError (tailName file)), s1)
               | Some de \<Rightarrow> (Inr (dblock', de), s1)))"

text \<open>
  A node handle carries its id and its folder-branch. \<^verbatim>\<open>pathFromNodeHelper\<close> resolves it
  through the node cache; \<open>nodeHandle\<close> is the handle of a node the cache returned.
\<close>

record Node =
  node_ID :: nat
  node_FolderBranch :: FolderBranch

definition PathFromNode :: "fbo \<Rightarrow> Node \<Rightarrow> path" where
  "PathFromNode s n = \<lparr>p_FolderBranch = folderBranch s, path_nodes = nodeCache s (node_ID n)\<rparr>"

definition pathFromNodeHelper :: "fbo \<Rightarrow> Node \<Rightarrow> error + path" where
  "pathFromNodeHelper s n =
     (let p = PathFromNode s n in if \<not> isValid p then Inl InvalidPathError else Inr p)"

definition nodeHandle :: "fbo \<Rightarrow> nat \<Rightarrow> Node" where
  "nodeHandle s i = \<lparr>node_ID = i, node_FolderBranch = folderBranch s\<rparr>"

text \<open>
  Modelled from the spec: \<^verbatim>\<open>NodeCache.Get\<close> returns the live node of a pointer, and
  \<^verbatim>\<open>path.ChildPathNoPtr\<close> appends a path node with the name and no pointer.
\<close>

definition nodeGet :: "fbo \<Rightarrow> BlockPointer \<Rightarrow> nat option" where
  "nodeGet s ptr = nodeIndex s ptr"

definition ChildPathNoPtr :: "path \<Rightarrow> string \<Rightarrow> path" where
  "ChildPathNoPtr p name =
     p\<lparr>path_nodes := path_nodes p @ [\<lparr>pn_BlockPointer = zeroPtr, Name = name\<rparr>]\<rparr>"


section \<open>Publishing a revision and applying remote revisions\<close>

text \<open>
  \<^verbatim>\<open>IsFirstRef\<close> of a pointer: its reference nonce is the zero nonce (a pointer made
  for new content, not for one more reference to known content).
\<close>

definition IsFirstRef :: "BlockPointer \<Rightarrow> bool" where
  "IsFirstRef ptr = (RefNonce ptr = zeroBlockRefNonce)"

text \<open>\<^verbatim>\<open>finalizeBlocks\<close>: cache every newly made block as a clean (transient) entry.\<close>

fun finalizeBlocks :: "env \<Rightarrow> blockPutState \<Rightarrow> fbo \<Rightarrow> error option \<times> fbo" where
  "finalizeBlocks e [] s = (None, s)"
| "finalizeBlocks e (b # bs) s =
     (if \<not> IsFirstRef (blockPtr b) then finalizeBlocks e bs s
      else case e_BlockCachePut e (blockPtr b) of
             Some err \<Rightarrow> (Some err, s)
           | None \<Rightarrow> finalizeBlocks e bs
                       (s\<lparr>transientCache := (transientCache s)(blockPtr b \<mapsto> block b)\<rparr>))"

text \<open>
  \<^verbatim>\<open>updatePointers\<close>: every update of the op goes to the node cache (an event) and
  moves the de-cache entries of the old pointer to the new one; a rename also moves the
  entry of the renamed file (\<^verbatim>\<open>moveDeCacheEntryLocked\<close>).
\<close>

definition moveDeCacheEntryLocked ::
  "BlockPointer \<Rightarrow> BlockPointer \<Rightarrow> BlockPointer \<Rightarrow> fbo \<Rightarrow> fbo" where
  "moveDeCacheEntryLocked oldParent newParent moved s =
     (if newParent = zeroPtr then s
      else case map_of (deCache s) (stripBP oldParent) of
             None \<Rightarrow> s
           | Some deMap \<Rightarrow>
              (case map_of deMap (stripBP moved) of
                 None \<Rightarrow> s
               | Some de \<Rightarrow>
                  (let newPtr = stripBP newParent;
                       dc1 = (case map_of (deCache s) newPtr of
                                None \<Rightarrow> AList.update newPtr [] (deCache s)
                              | Some _ \<Rightarrow> deCache s);
                       dc2 = AList.update newPtr
                               (AList.update (stripBP moved) de (the (map_of dc1 newPtr))) dc1;
                       deMap' = AList.delete (stripBP moved)
                                  (the (map_of dc2 (stripBP oldParent)));
                       dc3 = (if length deMap' = 0 then AList.delete (stripBP oldParent) dc2
                              else AList.update (stripBP oldParent) deMap' dc2)
                   in s\<lparr>deCache := dc3\<rparr>)))"

definition UpdatePointer :: "BlockPointer \<Rightarrow> BlockPointer \<Rightarrow> fbo \<Rightarrow> fbo" where
  "UpdatePointer oldPtr newPtr s =
     s\<lparr>nodeCache := (\<lambda>n. map (\<lambda>pn. if pn_BlockPointer pn = oldPtr
                                      then pn\<lparr>pn_BlockPointer := newPtr\<rparr> else pn)
                            (nodeCache s n)),
       nodeIndex := (case nodeIndex s oldPtr of
                       None \<Rightarrow> nodeIndex s
                     | Some i \<Rightarrow> (nodeIndex s)(oldPtr := None, newPtr \<mapsto> i))\<rparr>"

fun updatePointers_loop :: "(BlockPointer \<times> BlockPointer) list \<Rightarrow> fbo \<Rightarrow> fbo" where
  "updatePointers_loop [] s = s"
| "updatePointers_loop ((unref, ref) # us) s =
     (let s1 = emit (EvUpdatePointer unref ref) (UpdatePointer unref ref s);
          s2 = (case map_of (deCache s1) (stripBP unref) of
                  None \<Rightarrow> s1
                | Some deMap \<Rightarrow>
                    s1\<lparr>deCache := AList.delete (stripBP unref)
                                     (AList.update (stripBP ref) deMap (deCache s1))\<rparr>)
      in updatePointers_loop us s2)"

definition updatePointers :: "op \<Rightarrow> fbo \<Rightarrow> fbo" where
  "updatePointers o1 s =
     (let s1 = updatePointers_loop (opUpdates o1) s in
      case opRename o1 of
        None \<Rightarrow> s1
      | Some (oldDir, newDir, renamed) \<Rightarrow> moveDeCacheEntryLocked oldDir newDir renamed s1)"

text \<open>
  Modelled from the spec: \<^verbatim>\<open>NodeCache.Unlink\<close> detaches the live node of a pointer, which
  from then on resolves to the path given, and \<^verbatim>\<open>NodeCache.Move\<close> gives the live node of
  a pointer a new parent and name, so that it and every node below it resolve through
  the new parent. The error of \<^verbatim>\<open>Move\<close> is the collaborator's (\<open>e_Move\<close>). Both calls
  are recorded in the trace.
\<close>

definition Unlink :: "BlockPointer \<Rightarrow> pathNode list \<Rightarrow> fbo \<Rightarrow> fbo" where
  "Unlink ptr oldPath s =
     (let s1 = emit (EvUnlink ptr oldPath) s in
      case nodeIndex s1 ptr of
        None \<Rightarrow> s1
      | Some i \<Rightarrow> s1\<lparr>nodeIndex := (nodeIndex s1)(ptr := None),
                     nodeCache := (nodeCache s1)(i := oldPath)\<rparr>)"

definition rebase :: "BlockPointer \<Rightarrow> pathNode list \<Rightarrow> pathNode list \<Rightarrow> pathNode list" where
  "rebase ptr newPath p =
     (let pre = takeWhile (\<lambda>x. pn_BlockPointer x \<noteq> ptr) p in
      if length pre = length p then p else newPath @ drop (length pre + 1) p)"

definition Move :: "env \<Rightarrow> BlockPointer \<Rightarrow> nat \<Rightarrow> string \<Rightarrow> fbo \<Rightarrow> error option \<times> fbo" where
  "Move e ptr newParent newName s =
     (let s1 = emit (EvMove ptr newParent newName) s in
      case e_Move e ptr newParent newName of
        Some err \<Rightarrow> (Some err, s1)
      | None \<Rightarrow>
         (case nodeIndex s1 ptr of
            None \<Rightarrow> (None, s1)
          | Some i \<Rightarrow>
             (let newPath = nodeCache s1 newParent @ [\<lparr>pn_BlockPointer = ptr, Name = newName\<rparr>]
              in (None, s1\<lparr>nodeCache := (\<lambda>n. rebase ptr newPath (nodeCache s1 n))\<rparr>))))"

text \<open>
  \<^verbatim>\<open>unlinkFromCache\<close>: the child path of the node under the name, with the parent's
  pointer set back to \<open>oldDir\<close>, is unlinked under every pointer the op unreferences.
\<close>

definition unlinkFromCache ::
  "op \<Rightarrow> BlockPointer \<Rightarrow> nat \<Rightarrow> string \<Rightarrow> fbo \<Rightarrow> error option \<times> fbo" where
  "unlinkFromCache o1 oldDir node name s =
     (case pathFromNodeHelper s (nodeHandle s node) of
        Inl err \<Rightarrow> (Some err, s)
      | Inr p \<Rightarrow>
         (let cp = path_nodes (ChildPathNoPtr p name);
              cp1 = cp[length cp - 2 := (cp ! (length cp - 2))\<lparr>pn_BlockPointer := oldDir\<rparr>]
          in (None,
              foldl (\<lambda>s1 ptr.
                       Unlink ptr (cp1[length cp1 - 1 :=
                                        (cp1 ! (length cp1 - 1))\<lparr>pn_BlockPointer := ptr\<rparr>]) s1)
                    s (opUnrefs o1))))"

text \<open>
  \<^verbatim>\<open>searchForNode\<close> with \<^verbatim>\<open>searchForNodes\<close>: the node of the root must be cached and
  resolve to a path of one node; the root itself is found at once. The walk over the
  directory blocks below the root (\<^verbatim>\<open>searchForNodesInDirLocked\<close>) reads directory
  blocks and has the node cache make nodes for what it finds; of the walk the model keeps
  the node it ends with (\<open>e_searchInDir\<close>, \<open>None\<close> when nothing is found or the walk
  fails), not the nodes and cache entries it leaves behind.
\<close>

definition searchForNode :: "env \<Rightarrow> BlockPointer \<Rightarrow> op \<Rightarrow> RootMetadata \<Rightarrow> fbo \<Rightarrow> nat option" where
  "searchForNode e ptr o1 md s =
     (let rootPtr = BlockPointer (de_BlockInfo (data_Dir md)) in
      case nodeGet s rootPtr of
        None \<Rightarrow> None
      | Some rootNode \<Rightarrow>
          if ptr = rootPtr then Some rootNode
          else if length (nodeCache s rootNode) \<noteq> 1 then None
          else e_searchInDir e ptr o1)"

text \<open>
  The switch of \<^verbatim>\<open>notifyOneOpLocked\<close> over the kind of the op, one function per case
  that does more than look a node up. The result is the list of node changes to deliver,
  or \<open>None\<close> where the source returns before the delivery.
\<close>

definition renameChanges ::
  "env \<Rightarrow> op \<Rightarrow> RootMetadata \<Rightarrow> fbo \<Rightarrow> NodeChange list option \<times> fbo" where
  "renameChanges e o1 md s =
     (let (oldDirRef, newDirRef, renamed) =
            (case opRename o1 of None \<Rightarrow> (zeroPtr, zeroPtr, zeroPtr) | Some t \<Rightarrow> t);
          oldNode = nodeGet s oldDirRef;
          ch1 = (case oldNode of
                   None \<Rightarrow> []
                 | Some n \<Rightarrow> [\<lparr>nc_Node = n, DirUpdated = [opOldName o1], FileUpdated = []\<rparr>]);
          newNode0 = (if newDirRef \<noteq> zeroPtr then nodeGet s newDirRef else oldNode);
          changes = (if newDirRef \<noteq> zeroPtr
                     then (case newNode0 of
                             None \<Rightarrow> ch1
                           | Some n \<Rightarrow> ch1 @ [\<lparr>nc_Node = n, DirUpdated = [opNewName o1],
                                                FileUpdated = []\<rparr>])
                     else (case oldNode of
                             None \<Rightarrow> ch1
                           | Some n \<Rightarrow> [\<lparr>nc_Node = n, DirUpdated = [opOldName o1, opNewName o1],
                                          FileUpdated = []\<rparr>]))
      in case oldNode of
           None \<Rightarrow> (Some changes, s)
         | Some oldN \<Rightarrow>
            (let newNode = (case newNode0 of
                              Some n \<Rightarrow> Some n
                            | None \<Rightarrow>
                               (case nodeGet s renamed of
                                  None \<Rightarrow> None
                                | Some childNode \<Rightarrow> searchForNode e newDirRef o1 md s))
             in case newNode of
                  None \<Rightarrow> (Some changes, s)
                | Some newN \<Rightarrow>
                   (let unrefPtr = (if oldN \<noteq> newN then opNewDirUnref o1 else opDirUnref o1) in
                    case unlinkFromCache o1 unrefPtr newN (opNewName o1) s of
                      (Some err, s1) \<Rightarrow> (None, s1)
                    | (None, s1) \<Rightarrow>
                       (case Move e renamed newN (opNewName o1) s1 of
                          (Some err, s2) \<Rightarrow> (None, s2)
                        | (None, s2) \<Rightarrow> (Some changes, s2)))))"

definition fixupDeCache ::
  "env \<Rightarrow> op \<Rightarrow> path \<Rightarrow> DirEntry \<Rightarrow> fbo \<Rightarrow> error option \<times> fbo" where
  "fixupDeCache e o1 p de s =
     (case map_of (deCache s) (tailPointer p) of
        None \<Rightarrow> (None, s)
      | Some dirEntry \<Rightarrow>
         (case map_of dirEntry (BlockPointer (de_BlockInfo de)) of
            None \<Rightarrow> (None, s)
          | Some fileEntry \<Rightarrow>
             (case getDirLocked e p mdReadNeedIdentify s of
                (Inl err, s1) \<Rightarrow> (Some err, s1)
              | (Inr dblock, s1) \<Rightarrow>
                 (case Children dblock (opOldName o1) of
                    None \<Rightarrow> (None, s1)
                  | Some realEntry \<Rightarrow>
                     (let fileEntry' = (case opAttr o1 of
                                          exAttr \<Rightarrow> fileEntry\<lparr>Type := Type realEntry\<rparr>
                                        | mtimeAttr \<Rightarrow> fileEntry\<lparr>Mtime := Mtime realEntry\<rparr>)
                      in (None,
                          s1\<lparr>deCache := AList.update (tailPointer p)
                                (AList.update (BlockPointer (de_BlockInfo de)) fileEntry' dirEntry)
                                (deCache s1)\<rparr>))))))"

definition setAttrChanges ::
  "env \<Rightarrow> op \<Rightarrow> RootMetadata \<Rightarrow> fbo \<Rightarrow> NodeChange list option \<times> fbo" where
  "setAttrChanges e o1 md s =
     (case nodeGet s (opDirRef o1) of
        None \<Rightarrow> (None, s)
      | Some node \<Rightarrow>
         (case pathFromNodeHelper s (nodeHandle s node) of
            Inl err \<Rightarrow> (None, s)
          | Inr p \<Rightarrow>
             (case getEntryLocked e (ChildPathNoPtr p (opOldName o1)) s of
                (Inl err, s1) \<Rightarrow> (None, s1)
              | (Inr (dblock, de), s1) \<Rightarrow>
                 (case nodeGet s1 (BlockPointer (de_BlockInfo de)) of
                    None \<Rightarrow> (None, s1)
                  | Some childNode \<Rightarrow>
                     (case fixupDeCache e o1 p de s1 of
                        (Some err, s2) \<Rightarrow> (None, s2)
                      | (None, s2) \<Rightarrow>
                          (Some [\<lparr>nc_Node = childNode, DirUpdated = [], FileUpdated = []\<rparr>],
                           s2))))))"

definition nodeChanges ::
  "env \<Rightarrow> op \<Rightarrow> RootMetadata \<Rightarrow> fbo \<Rightarrow> NodeChange list option \<times> fbo" where
  "nodeChanges e o1 md s =
     (case opKind o1 of
        gcOp \<Rightarrow> (None, s)
      | createOp \<Rightarrow>
         (case nodeGet s (opDirRef o1) of
            None \<Rightarrow> (None, s)
          | Some node \<Rightarrow>
              (Some [\<lparr>nc_Node = node, DirUpdated = [opNewName o1], FileUpdated = []\<rparr>], s))
      | rmOp \<Rightarrow>
         (case nodeGet s (opDirRef o1) of
            None \<Rightarrow> (None, s)
          | Some node \<Rightarrow>
             (case unlinkFromCache o1 (opDirUnref o1) node (opOldName o1) s of
                (Some err, s1) \<Rightarrow> (None, s1)
              | (None, s1) \<Rightarrow>
                  (Some [\<lparr>nc_Node = node, DirUpdated = [opOldName o1], FileUpdated = []\<rparr>], s1)))
      | renameOp \<Rightarrow> renameChanges e o1 md s
      | syncOp \<Rightarrow>
         (case nodeGet s (opDirRef o1) of
            None \<Rightarrow> (None, s)
          | Some node \<Rightarrow>
              (Some [\<lparr>nc_Node = node, DirUpdated = [], FileUpdated = Writes o1\<rparr>], s))
      | setAttrOp \<Rightarrow> setAttrChanges e o1 md s)"

text \<open>
  \<^verbatim>\<open>notifyOneOpLocked\<close>: after \<^verbatim>\<open>updatePointers\<close> the switch assembles the node changes
  of the op, and where it does not return first, \<^verbatim>\<open>BatchChanges\<close> is called with them
  on every registered observer.
\<close>

definition BatchChanges :: "NodeChange list \<Rightarrow> fbo \<Rightarrow> fbo" where
  "BatchChanges changes s = foldl (\<lambda>s1 ob. emit (EvBatchChanges ob changes) s1) s (observers s)"

definition notifyOneOpLocked :: "env \<Rightarrow> op \<Rightarrow> RootMetadata \<Rightarrow> fbo \<Rightarrow> fbo" where
  "notifyOneOpLocked e o1 md s =
     (case nodeChanges e o1 md (emit (EvNotifyOneOp o1 (Revision md)) (updatePointers o1 s)) of
        (None, s1) \<Rightarrow> s1
      | (Some changes, s1) \<Rightarrow> BatchChanges changes s1)"

text \<open>\<^verbatim>\<open>notifyBatchLocked\<close> notifies the last op; indexing an empty list panics.\<close>

definition notifyBatchLocked :: "env \<Rightarrow> RootMetadata \<Rightarrow> fbo \<Rightarrow> error option \<times> fbo" where
  "notifyBatchLocked e md s =
     (case Ops (Changes md) of
        None \<Rightarrow> (Some (Panic ''index out of range''), s)
      | Some ops \<Rightarrow>
          if ops = [] then (Some (Panic ''index out of range''), s)
          else (None, notifyOneOpLocked e (last ops) md s))"

text \<open>\<^verbatim>\<open>isRevisionConflict\<close>, on the error of the put (\<open>None\<close> is Go's nil).\<close>

definition isRevisionConflict :: "error option \<Rightarrow> bool" where
  "isRevisionConflict err =
     (case err of
        None \<Rightarrow> False
      | Some x \<Rightarrow> x = MDServerErrorConflictRevision \<or> x = MDServerErrorConflictPrevRoot \<or>
                  x = MDServerErrorConflictDiskUsage \<or> x = MDServerErrorConditionFailed)"

text \<open>
  The part of \<^verbatim>\<open>finalizeMDWriteLocked\<close> after the puts: swap the cached block changes
  in when the ops were unembedded, go to the clean state, cache the blocks, install the
  head and notify. \<open>deferred\<close> is the rekey request registered with \<^verbatim>\<open>defer\<close>, which
  runs on every way out.
\<close>

definition swapCachedChanges :: "RootMetadata \<Rightarrow> error + RootMetadata" where
  "swapCachedChanges md =
     (if Ops (Changes md) = None then
        (let md1 = md\<lparr>Changes := cachedChanges md, cachedChanges := Changes md\<rparr> in
         case Ops (Changes md1) of
           None \<Rightarrow> Inl (Panic ''index out of range'')
         | Some [] \<Rightarrow> Inl (Panic ''index out of range'')
         | Some (o1 # os) \<Rightarrow>
             Inr (md1\<lparr>Changes := (Changes md1)\<lparr>Ops :=
               Some (o1\<lparr>opRefs := opRefs o1 @ [BlockPointer (Info (cachedChanges md1))]\<rparr> # os)\<rparr>\<rparr>))
      else Inr md)"

definition finalizeMDWrite_tail ::
  "env \<Rightarrow> RootMetadata \<Rightarrow> blockPutState \<Rightarrow> bool \<Rightarrow> fbo \<Rightarrow> error option \<times> fbo" where
  "finalizeMDWrite_tail e md bps deferred s =
     (let out = (\<lambda>(r, s'). (r, if deferred then emit (EvRekeyEnqueue (md_ID md)) s' else s')) in
      case swapCachedChanges md of
        Inl err \<Rightarrow> out (Some err, s)
      | Inr md1 \<Rightarrow>
         (let s1 = transitionState cleanState s in
          case finalizeBlocks e bps s1 of
            (Some err, s2) \<Rightarrow> out (Some err, s2)
          | (None, s2) \<Rightarrow>
             (case setHeadLocked e md1 s2 of
                (Some err, s3) \<Rightarrow> out (Some err, s3)
              | (None, s3) \<Rightarrow> out (notifyBatchLocked e md1 s3))))"

text \<open>
  \<^verbatim>\<open>finalizeMDWriteLocked\<close>. When the engine is not staged it tries the merged put; a
  conflict error turns the put into an unmerged one. When \<^verbatim>\<open>PutUnmerged\<close> fails, the
  function returns nil (\<open>None\<close>), as the source does.
\<close>

definition finalizeMDWriteLocked ::
  "env \<Rightarrow> RootMetadata \<Rightarrow> blockPutState \<Rightarrow> fbo \<Rightarrow> error option \<times> fbo" where
  "finalizeMDWriteLocked e md bps s =
     (let wasStaged = staged s;
          (err, s1) = (if \<not> staged s then (e_MDPut e md, emit (EvMDPut md) s) else (None, s));
          doUnmergedPut = (if \<not> staged s then isRevisionConflict err else True);
          mergedRev = (if \<not> staged s \<and> doUnmergedPut then Revision md
                       else MetadataRevisionUninitialized)
      in
      if \<not> staged s \<and> err \<noteq> None \<and> \<not> doUnmergedPut then (err, s1)
      else if doUnmergedPut then
        (case (if \<not> wasStaged
               then (case e_MakeRandomBranchID e of
                       Inl er \<Rightarrow> (Inl er, emit EvMakeRandomBranchID s1)
                     | Inr b \<Rightarrow> (Inr b, emit EvMakeRandomBranchID s1))
               else (Inr (bid s1), s1)) of
           (Inl er, s2) \<Rightarrow> (Some er, s2)
         | (Inr b, s2) \<Rightarrow>
            (let s3 = emit (EvPutUnmerged md b) s2 in
             case e_PutUnmerged e md b of
               Some er \<Rightarrow> (None, s3)
             | None \<Rightarrow>
                (let s4 = setStagedLocked True b s3;
                     s5 = emit (EvResolve (Revision md) mergedRev) s4
                 in finalizeMDWrite_tail e md bps False s5)))
      else
        (case (if staged s1
               then (e_PruneBranch e (Tlf (folderBranch s1)) (bid s1),
                     emit (EvPruneBranch (Tlf (folderBranch s1)) (bid s1)) s1)
               else (None, s1)) of
           (Some er, s2) \<Rightarrow> (Some er, s2)
         | (None, s2) \<Rightarrow>
            (let s3 = setStagedLocked False NullBranchID s2
             in finalizeMDWrite_tail e md bps
                  (md_RekeySet md \<and> \<not> md_WriterMetadataCopied md) s3)))"

text \<open>\<^verbatim>\<open>getCurrMDRevisionLocked\<close>.\<close>

definition getCurrMDRevisionLocked :: "fbo \<Rightarrow> MetadataRevision" where
  "getCurrMDRevisionLocked s =
     (case head s of Some h \<Rightarrow> Revision h | None \<Rightarrow> MetadataRevisionUninitialized)"

text \<open>
  \<^verbatim>\<open>reembedBlockChanges\<close>: for a revision whose changes sit in a block, fetch and decode
  them (\<open>e_reembed\<close>), add the block's pointer to the first op's references and remember
  the info. It stops at the first error; the revisions are changed in place, so the
  result is the list as it stands then.
\<close>

fun reembedBlockChanges :: "env \<Rightarrow> RootMetadata list \<Rightarrow> error option \<times> RootMetadata list" where
  "reembedBlockChanges e [] = (None, [])"
| "reembedBlockChanges e (rmd # rmds) =
     (let info = Info (Changes rmd) in
      if BlockPointer info = zeroPtr then
        (case reembedBlockChanges e rmds of (r, rmds') \<Rightarrow> (r, rmd # rmds'))
      else case e_reembed e rmd of
             Inl err \<Rightarrow> (Some err, rmd # rmds)
           | Inr ch \<Rightarrow>
              (case Ops ch of
                 None \<Rightarrow> (Some (Panic ''index out of range''), rmd\<lparr>Changes := ch\<rparr> # rmds)
               | Some [] \<Rightarrow> (Some (Panic ''index out of range''), rmd\<lparr>Changes := ch\<rparr> # rmds)
               | Some (o1 # os) \<Rightarrow>
                  (let rmd' = rmd\<lparr>Changes := ch\<lparr>Ops :=
                                 Some (o1\<lparr>opRefs := opRefs o1 @ [BlockPointer info]\<rparr> # os)\<rparr>,
                               cachedChanges := (cachedChanges rmd)\<lparr>Info := info\<rparr>\<rparr>
                   in case reembedBlockChanges e rmds of (r, rmds') \<Rightarrow> (r, rmd' # rmds'))))"

fun notifyOps :: "env \<Rightarrow> op list \<Rightarrow> RootMetadata \<Rightarrow> fbo \<Rightarrow> fbo" where
  "notifyOps e [] rmd s = s"
| "notifyOps e (o1 # os) rmd s = notifyOps e os rmd (notifyOneOpLocked e o1 rmd s)"

text \<open>
  The loop of \<^verbatim>\<open>applyMDUpdatesLocked\<close> over the revisions. Revisions are Go
  \<^verbatim>\<open>int64\<close>: the comparison is signed and the successor wraps.
\<close>

fun applyMDUpdates_loop :: "env \<Rightarrow> RootMetadata list \<Rightarrow> fbo \<Rightarrow> error option \<times> fbo" where
  "applyMDUpdates_loop e [] s = (None, s)"
| "applyMDUpdates_loop e (rmd # rmds) s =
     (if Revision rmd \<le>s getCurrMDRevisionLocked s then applyMDUpdates_loop e rmds s
      else if Revision rmd \<noteq> getCurrMDRevisionLocked s + 1
      then (Some (MDUpdateApplyError (Revision rmd) (getCurrMDRevisionLocked s)), s)
      else case setHeadLocked e rmd s of
             (Some err, s1) \<Rightarrow> (Some err, s1)
           | (None, s1) \<Rightarrow>
               if md_WriterMetadataCopied rmd then applyMDUpdates_loop e rmds s1
               else applyMDUpdates_loop e rmds
                      (notifyOps e (case Ops (Changes rmd) of None \<Rightarrow> [] | Some ops \<Rightarrow> ops) rmd s1))"

text \<open>
  \<^verbatim>\<open>applyMDUpdatesLocked\<close>. The error of \<^verbatim>\<open>reembedBlockChanges\<close> is dropped by the
  source; a panic inside it is not an error value and ends the call.
\<close>

definition applyMDUpdatesLocked :: "env \<Rightarrow> RootMetadata list \<Rightarrow> fbo \<Rightarrow> error option \<times> fbo" where
  "applyMDUpdatesLocked e rmds s =
     (if staged s then
        (Some (GenericError ''Ignoring MD updates while local updates are staged''),
         if length rmds > 0
         then emit (EvResolve (getCurrMDRevisionLocked s) (Revision (last rmds))) s
         else s)
      else if getState s \<noteq> cleanState then
        (Some (GenericError ''Ignoring MD updates while writes are dirty''), s)
      else case reembedBlockChanges e rmds of
             (Some (Panic m), rmds') \<Rightarrow> (Some (Panic m), s)
           | (r, rmds') \<Rightarrow> applyMDUpdates_loop e rmds' s)"

text \<open>\<^verbatim>\<open>undoMDUpdatesLocked\<close>: the same walk backwards, inverting each op.\<close>

fun undoMDUpdates_loop :: "env \<Rightarrow> RootMetadata list \<Rightarrow> fbo \<Rightarrow> error option \<times> fbo" where
  "undoMDUpdates_loop e [] s = (None, s)"
| "undoMDUpdates_loop e (rmd # rmds) s =
     (if Revision rmd \<noteq> getCurrMDRevisionLocked s \<and>
         Revision rmd \<noteq> getCurrMDRevisionLocked s - 1
      then (Some (MDUpdateInvertError (Revision rmd) (getCurrMDRevisionLocked s)), s)
      else case setHeadLocked e rmd s of
             (Some err, s1) \<Rightarrow> (Some err, s1)
           | (None, s1) \<Rightarrow>
               undoMDUpdates_loop e rmds
                 (notifyOps e (map (e_invertOp e)
                    (rev (case Ops (Changes rmd) of None \<Rightarrow> [] | Some ops \<Rightarrow> ops))) rmd s1))"

definition undoMDUpdatesLocked :: "env \<Rightarrow> RootMetadata list \<Rightarrow> fbo \<Rightarrow> error option \<times> fbo" where
  "undoMDUpdatesLocked e rmds s =
     (if getState s \<noteq> cleanState then (Some NotPermittedWhileDirtyError, s)
      else case reembedBlockChanges e rmds of
             (Some (Panic m), rmds') \<Rightarrow> (Some (Panic m), s)
           | (r, rmds') \<Rightarrow> undoMDUpdates_loop e (rev rmds') s)"

text \<open>\<^verbatim>\<open>applyMDUpdates\<close> and \<^verbatim>\<open>getAndApplyMDUpdates\<close> with it as the apply function.\<close>

definition applyMDUpdates :: "env \<Rightarrow> RootMetadata list \<Rightarrow> fbo \<Rightarrow> error option \<times> fbo" where
  "applyMDUpdates e rmds s =
     (case applyMDUpdatesLocked e rmds (emit EvLockMDWriter s) of
        (r, s1) \<Rightarrow> (r, emit EvUnlockMDWriter s1))"

definition getAndApplyMDUpdates :: "env \<Rightarrow> fbo \<Rightarrow> error option \<times> fbo" where
  "getAndApplyMDUpdates e s =
     (case e_getMergedMDUpdates e (getCurrMDRevisionLocked s + 1) of
        Inl err \<Rightarrow> (Some err, s)
      | Inr rmds \<Rightarrow> applyMDUpdates e rmds s)"

text \<open>
  The update pump (\<^verbatim>\<open>registerForUpdates\<close>), from the moment the update channel
  delivers \<open>upd\<close>: apply the updates, sleep a second when the error is a
  \<open>NotPermittedWhileDirtyError\<close>, and register again (the deferred call).
\<close>

definition isNotPermittedWhileDirty :: "error \<Rightarrow> bool" where
  "isNotPermittedWhileDirty err = (err = NotPermittedWhileDirtyError)"

definition pumpOnUpdate :: "env \<Rightarrow> error option \<Rightarrow> fbo \<Rightarrow> error option \<times> fbo" where
  "pumpOnUpdate e upd s =
     (case upd of
        Some err \<Rightarrow> (Some err, emit EvRegisterForUpdates s)
      | None \<Rightarrow>
         (case getAndApplyMDUpdates e s of
            (Some err, s1) \<Rightarrow>
              (Some err, emit EvRegisterForUpdates
                           (if isNotPermittedWhileDirty err then emit EvSleep s1 else s1))
          | (None, s1) \<Rightarrow> (None, emit EvRegisterForUpdates s1)))"



definition idOf :: "env \<Rightarrow> RootMetadata \<Rightarrow> error + MdID" where
  "idOf e md = (if mdId md \<noteq> NullMDId then Inr (mdId md) else e_Hash e md)"



definition isNotify :: "event \<Rightarrow> bool" where
  "isNotify ev = (case ev of EvNotifyOneOp _ _ \<Rightarrow> True | _ \<Rightarrow> False)"


text \<open>
  A delivery is a call of \<^verbatim>\<open>BatchChanges\<close> on an observer; \<open>batches\<close> are the
  deliveries of one list of changes to a list of observers. A step is quiet when it leaves
  the head, the staged flag, the branch id and the observers alone and adds to the trace
  neither a call of \<^verbatim>\<open>notifyOneOpLocked\<close> nor a delivery.
\<close>

definition isDelivery :: "event \<Rightarrow> bool" where
  "isDelivery ev = (case ev of EvBatchChanges _ _ \<Rightarrow> True | _ \<Rightarrow> False)"

definition batches :: "nat list \<Rightarrow> NodeChange list \<Rightarrow> event list" where
  "batches obs changes = map (\<lambda>ob. EvBatchChanges ob changes) obs"

definition quiet :: "fbo \<Rightarrow> fbo \<Rightarrow> bool" where
  "quiet s s' = (head s' = head s \<and> staged s' = staged s \<and> bid s' = bid s \<and>
                 observers s' = observers s \<and>
                 (\<exists>t. trace s' = trace s @ t \<and> filter isNotify t = [] \<and>
                      filter isDelivery t = []))"

subsection \<open>Concrete inputs used to exercise the theorems\<close>

definition ptr0 :: BlockPointer where
  "ptr0 = \<lparr>ID = 1, KeyGen = 1, DataVer = 1, Creator = 7, Writer = 0, RefNonce = 0\<rparr>"

definition de0 :: DirEntry where
  "de0 = \<lparr>de_BlockInfo = \<lparr>BlockPointer = ptr0, EncodedSize = 10\<rparr>, Type = Dir, Size = 0,
           Mtime = 0, Ctime = 0\<rparr>"

definition noChanges :: BlockChanges where
  "noChanges = \<lparr>Info = \<lparr>BlockPointer = zeroPtr, EncodedSize = 0\<rparr>, Ops = Some []\<rparr>"

definition md0 :: RootMetadata where
  "md0 = \<lparr>md_ID = 1, BID = 0, Revision = 5, PrevRoot = 4, RefBytes = 0, UnrefBytes = 0,
           DiskUsage = 0, data_Dir = de0, Changes = noChanges, cachedChanges = noChanges,
           mdId = 105, md_Unmerged = False, md_Initialized = True, md_Readable = True,
           md_RekeySet = False, md_WriterMetadataCopied = False, md_Writers = [7],
           md_Readers = [], md_LatestKeyGen = 1\<rparr>"

definition env0 :: env where
  "env0 = \<lparr>e_GetCurrentUID = Inr 7, e_GetUnmergedForTLF = Inr None, e_GetForTLF = Inr md0,
            e_identifyHandle = (\<lambda>_. None), e_Hash = (\<lambda>md. Inr (100 + unat (Revision md))),
            e_MDCachePut = (\<lambda>_. None), e_MDPut = (\<lambda>_. None),
            e_PutUnmerged = (\<lambda>_ _. None), e_MakeRandomBranchID = Inr 42,
            e_PruneBranch = (\<lambda>_ _. None),
            e_MakeSuccessor = (\<lambda>md. Inr (md\<lparr>Revision := Revision md + 1, PrevRoot := mdId md,
                                              mdId := 0\<rparr>)),
            e_initMD = (\<lambda>md. Inr md), e_BlockCachePut = (\<lambda>_. None),
            e_reembed = (\<lambda>md. Inr (Changes md)), e_invertOp = (\<lambda>x. x),
            e_getMergedMDUpdates = (\<lambda>_. Inr []),
            e_BlockGet = (\<lambda>_. Inl (CollabError 404)), e_PutDirty = (\<lambda>_. None),
            e_DeleteDirty = (\<lambda>_. None), e_MaxBlockSize = 4, e_CheckSplit = (\<lambda>_. 0),
            e_Ready = (\<lambda>b. Inr (1000 + size b, 0, 16)),
            e_CheckForKnownPtr = (\<lambda>_. Inr zeroPtr), e_MakeBlockRefNonce = Inr 1,
            e_BlockPut = (\<lambda>_. None), e_ShouldEmbedBlockChanges = (\<lambda>_. True),
            e_Encode = (\<lambda>_. Inr []), e_Move = (\<lambda>_ _ _. None), e_searchInDir = (\<lambda>_ _. None),
            e_DataVersion = 1, e_MaxFileBytes = 1000, e_Now = 0\<rparr>"

definition fb0 :: FolderBranch where
  "fb0 = \<lparr>Tlf = 1, Branch = MasterBranch\<rparr>"

definition fbo0 :: fbo where
  "fbo0 = \<lparr>folderBranch = fb0, bid = 0, head = None, staged = False, st = cleanState,
            identifyDone = False, fileBlockStates = (\<lambda>_. blockNotBeingSynced),
            deferredWrites = [], deferredDirtyDeletes = [], doDeferWrite = False,
            unrefCache = Map.empty, deCache = [], dirtyCache = Map.empty,
            transientCache = Map.empty, permanentCache = Map.empty, tempIDs = [],
            nodeCache = (\<lambda>_. []), nodeIndex = Map.empty, observers = [],
            trace = []\<rparr>"

definition opA :: op where
  "opA = \<lparr>opKind = createOp, opUpdates = [], opRefs = [], opUnrefs = [], Writes = [],
           opRename = None, opDirUnref = ptr0, opDirRef = ptr0, opNewDirUnref = zeroPtr,
           opOldName = [], opNewName = ''a'', opAttr = exAttr\<rparr>"

definition md6 :: RootMetadata where
  "md6 = md0\<lparr>Revision := 6, PrevRoot := 105, mdId := 0,
              Changes := \<lparr>Info = \<lparr>BlockPointer = zeroPtr, EncodedSize = 0\<rparr>, Ops = Some [opA]\<rparr>\<rparr>"

definition md6copied :: RootMetadata where
  "md6copied = md6\<lparr>md_WriterMetadataCopied := True\<rparr>"

definition fboH :: fbo where
  "fboH = fbo0\<lparr>head := Some md0\<rparr>"













definition fboDirty :: fbo where
  "fboDirty = fboH\<lparr>st := dirtyState\<rparr>"

definition envConflict :: env where
  "envConflict = env0\<lparr>e_MDPut := (\<lambda>_. Some MDServerErrorConflictRevision)\<rparr>"

definition envPutUnmergedFails :: env where
  "envPutUnmergedFails = envConflict\<lparr>e_PutUnmerged := (\<lambda>_ _. Some (CollabError 1))\<rparr>"

definition envUpdates :: env where
  "envUpdates = env0\<lparr>e_getMergedMDUpdates := (\<lambda>_. Inr [md6])\<rparr>"


definition isFetch :: "event \<Rightarrow> bool" where
  "isFetch ev = (ev = EvGetUnmergedForTLF \<or> ev = EvGetForTLF)"

subsection \<open>Read-mode acquisition never fetches\<close>

lemma getMDLocked_read_no_head:
  "head s = None \<Longrightarrow> rtype \<noteq> mdWrite \<Longrightarrow>
   getMDLocked e rtype s = (Inl MDWriteNeededInRequest, s)"
  by (simp add: getMDLocked_def getMDLocked_body_def)

lemma identifyOnce_fetches:
  "filter isFetch (trace (snd (identifyOnce e md s))) = filter isFetch (trace s)"
  by (simp add: identifyOnce_def emit_def isFetch_def Let_def split: option.splits)

lemma getMDLocked_read_fetches:
  assumes "rtype \<noteq> mdWrite"
  shows "filter isFetch (trace (snd (getMDLocked e rtype s))) = filter isFetch (trace s)"
proof (cases "head s")
  case None
  with assms show ?thesis by (simp add: getMDLocked_read_no_head)
next
  case (Some md)
  then have body: "getMDLocked_body e rtype s = (Inr md, s)"
    by (simp add: getMDLocked_body_def)
  show ?thesis
  proof (cases "rtype = mdReadNoIdentify")
    case True
    with body show ?thesis by (simp add: getMDLocked_def)
  next
    case False
    obtain r s2 where io: "identifyOnce e md s = (r, s2)" by (cases "identifyOnce e md s")
    have "filter isFetch (trace s2) = filter isFetch (trace s)"
      using identifyOnce_fetches [of e md s] io by simp
    with body False io show ?thesis
      by (cases r) (simp_all add: getMDLocked_def)
  qed
qed

lemma exec_no_retry:
  "fst (f mdReadNoIdentify s) \<noteq> Some MDWriteNeededInRequest \<Longrightarrow>
   execMDReadNoIdentifyThenMDWrite f s = f mdReadNoIdentify s"
  by (cases "f mdReadNoIdentify s")
     (auto simp: execMDReadNoIdentifyThenMDWrite_def split: option.splits error.splits)

lemma exec_retry:
  "f mdReadNoIdentify s = (Some MDWriteNeededInRequest, s1) \<Longrightarrow>
   execMDReadNoIdentifyThenMDWrite f s =
     (fst (f mdWrite (emit EvLockMDWriter s1)),
      emit EvUnlockMDWriter (snd (f mdWrite (emit EvLockMDWriter s1))))"
  by (simp add: execMDReadNoIdentifyThenMDWrite_def split: prod.splits)

text \<open>
  C6. With no cached head, an acquisition in either read mode fails with
  \<open>MDWriteNeededInRequest\<close>, leaves the engine as it was and so calls nothing; in a read
  mode no fetch from the metadata store is ever added to the trace, whatever the head;
  \<open>execMDReadNoIdentifyThenMDWrite\<close> hands back every other outcome of the read attempt
  unchanged, and on exactly that error runs the function again in write mode between
  taking and releasing \<open>mdWriterLock\<close>.
\<close>

theorem C6_read_mode_needs_write:
  "(head s = None \<and> rtype \<noteq> mdWrite \<longrightarrow>
      getMDLocked e rtype s = (Inl MDWriteNeededInRequest, s))
   \<and> (rtype \<noteq> mdWrite \<longrightarrow>
      filter isFetch (trace (snd (getMDLocked e rtype s))) = filter isFetch (trace s))
   \<and> (fst (f mdReadNoIdentify s') \<noteq> Some MDWriteNeededInRequest \<longrightarrow>
      execMDReadNoIdentifyThenMDWrite f s' = f mdReadNoIdentify s')
   \<and> (head s = None \<longrightarrow>
      execMDReadNoIdentifyThenMDWrite (getRootNode_md e) s =
        (fst (getRootNode_md e mdWrite (emit EvLockMDWriter s)),
         emit EvUnlockMDWriter (snd (getRootNode_md e mdWrite (emit EvLockMDWriter s)))))"
proof (intro conjI impI)
  assume "head s = None \<and> rtype \<noteq> mdWrite"
  then show "getMDLocked e rtype s = (Inl MDWriteNeededInRequest, s)"
    by (simp add: getMDLocked_read_no_head)
next
  assume "rtype \<noteq> mdWrite"
  then show "filter isFetch (trace (snd (getMDLocked e rtype s))) = filter isFetch (trace s)"
    by (rule getMDLocked_read_fetches)
next
  assume "fst (f mdReadNoIdentify s') \<noteq> Some MDWriteNeededInRequest"
  then show "execMDReadNoIdentifyThenMDWrite f s' = f mdReadNoIdentify s'"
    by (rule exec_no_retry)
next
  assume h: "head s = None"
  then have "getRootNode_md e mdReadNoIdentify s = (Some MDWriteNeededInRequest, s)"
    by (simp add: getRootNode_md_def getMDLocked_read_no_head)
  then show "execMDReadNoIdentifyThenMDWrite (getRootNode_md e) s =
        (fst (getRootNode_md e mdWrite (emit EvLockMDWriter s)),
         emit EvUnlockMDWriter (snd (getRootNode_md e mdWrite (emit EvLockMDWriter s))))"
    by (rule exec_retry)
qed


theorem C6_read_mode_needs_write_witness:
  "getMDLocked env0 mdReadNeedIdentify fbo0 = (Inl MDWriteNeededInRequest, fbo0)
   \<and> filter isFetch (trace (snd (getMDLocked env0 mdReadNeedIdentify fbo0))) = []
   \<and> execMDReadNoIdentifyThenMDWrite (\<lambda>_ s. (None, s)) fbo0 = (None, fbo0)
   \<and> fst (execMDReadNoIdentifyThenMDWrite (getRootNode_md env0) fbo0) = None
   \<and> trace (snd (execMDReadNoIdentifyThenMDWrite (getRootNode_md env0) fbo0)) =
       [EvLockMDWriter, EvGetUnmergedForTLF, EvGetForTLF, EvMDCachePut 5,
        EvRegisterForUpdates, EvIdentify, EvUnlockMDWriter]"
  using C6_read_mode_needs_write [of fbo0 mdReadNeedIdentify env0 "\<lambda>_ s. (None, s)" fbo0]
  by (simp add: fbo0_def env0_def md0_def de0_def fb0_def getRootNode_md_def getMDLocked_def
      getMDLocked_body_def setHeadLocked_def emit_def Let_def isFetch_def
      execMDReadNoIdentifyThenMDWrite_def identifyOnce_def)


subsection \<open>Installing heads and applying revisions\<close>




lemma quiet_refl: "quiet s s"
  by (simp add: quiet_def)

lemma quiet_trans: "quiet a b \<Longrightarrow> quiet b c \<Longrightarrow> quiet a c"
  by (auto simp: quiet_def)





lemma quiet_frame:
  "quiet s s' \<Longrightarrow> staged s' = staged s \<and> bid s' = bid s \<and> (\<exists>t. trace s' = trace s @ t)"
  by (auto simp: quiet_def)

lemma updatePointers_loop_quiet: "quiet s (updatePointers_loop us s)"
proof (induction us arbitrary: s)
  case Nil
  then show ?case by (simp add: quiet_refl)
next
  case (Cons u us)
  obtain a b where u: "u = (a, b)" by (cases u)
  define s0 where "s0 = emit (EvUpdatePointer a b) (UpdatePointer a b s)"
  define s2 where "s2 = (case map_of (deCache s0) (stripBP a) of
               None \<Rightarrow> s0
             | Some deMap \<Rightarrow> s0\<lparr>deCache := AList.delete (stripBP a)
                    (AList.update (stripBP b) deMap (deCache s0))\<rparr>)"
  have s2: "quiet s s2"
    by (simp add: quiet_def s2_def s0_def emit_def UpdatePointer_def isNotify_def
        isDelivery_def split: option.splits)
  have step: "updatePointers_loop (u # us) s = updatePointers_loop us s2"
    unfolding u s2_def s0_def by (simp add: Let_def)
  show ?case unfolding step using s2 Cons.IH [of s2] by (rule quiet_trans)
qed

lemma moveDeCacheEntryLocked_quiet: "quiet s (moveDeCacheEntryLocked a b c s)"
  by (simp add: quiet_def moveDeCacheEntryLocked_def Let_def split: option.splits)

lemma updatePointers_quiet: "quiet s (updatePointers o1 s)"
proof (cases "opRename o1")
  case None
  then show ?thesis by (simp add: updatePointers_def Let_def updatePointers_loop_quiet)
next
  case (Some t)
  obtain a b c where t: "t = (a, b, c)" by (cases t)
  show ?thesis using Some t
    by (simp add: updatePointers_def Let_def)
       (rule quiet_trans [OF updatePointers_loop_quiet moveDeCacheEntryLocked_quiet])
qed

lemma Unlink_quiet: "quiet s (Unlink ptr p s)"
  by (simp add: quiet_def Unlink_def Let_def emit_def isNotify_def isDelivery_def
      split: option.splits)

lemma Unlink_fold_quiet: "quiet s (foldl (\<lambda>s1 ptr. Unlink ptr (f ptr) s1) s ptrs)"
proof (induction ptrs arbitrary: s)
  case Nil
  then show ?case by (simp add: quiet_refl)
next
  case (Cons p ptrs)
  show ?case using Unlink_quiet [of s p "f p"] Cons.IH [of "Unlink p (f p) s"]
    by (simp add: quiet_trans)
qed

lemma unlinkFromCache_quiet: "quiet s (snd (unlinkFromCache o1 oldDir node name s))"
  by (simp add: unlinkFromCache_def Let_def quiet_refl Unlink_fold_quiet split: sum.splits)

lemma Move_quiet: "quiet s (snd (Move e ptr newParent newName s))"
  by (simp add: quiet_def Move_def Let_def emit_def isNotify_def isDelivery_def
      split: option.splits)

lemma getBlockHelperLocked_quiet: "quiet s (snd (getBlockHelperLocked e ptr c s))"
  by (simp add: quiet_def getBlockHelperLocked_def split: option.splits sum.splits)

lemma getDirLocked_quiet: "quiet s (snd (getDirLocked e dir rtype s))"
  using getBlockHelperLocked_quiet [of s e "tailPointer dir" True]
  by (auto simp: getDirLocked_def quiet_refl split: prod.splits sum.splits Block.splits)

lemma getEntryLocked_quiet: "quiet s (snd (getEntryLocked e p s))"
  using getDirLocked_quiet [of s e "parentPath p" mdWrite]
  by (auto simp: getEntryLocked_def Let_def quiet_refl
      split: prod.splits sum.splits option.splits)

lemma fixupDeCache_quiet: "quiet s (snd (fixupDeCache e o1 p de s))"
  using getDirLocked_quiet [of s e p mdReadNeedIdentify]
  by (auto simp: fixupDeCache_def Let_def quiet_refl quiet_def
      split: prod.splits sum.splits option.splits attrChange.splits)

lemma getEntryLocked_quietD: "getEntryLocked e p s = (r, s') \<Longrightarrow> quiet s s'"
  using getEntryLocked_quiet [of s e p] by simp

lemma fixupDeCache_quietD: "fixupDeCache e o1 p de s = (r, s') \<Longrightarrow> quiet s s'"
  using fixupDeCache_quiet [of s e o1 p de] by simp

lemma unlinkFromCache_quietD: "unlinkFromCache o1 d n nm s = (r, s') \<Longrightarrow> quiet s s'"
  using unlinkFromCache_quiet [of s o1 d n nm] by simp

lemma Move_quietD: "Move e ptr n nm s = (r, s') \<Longrightarrow> quiet s s'"
  using Move_quiet [of s e ptr n nm] by simp

lemma setAttrChanges_quiet: "quiet s (snd (setAttrChanges e o1 md s))"
proof (cases "nodeGet s (opDirRef o1)")
  case None
  then show ?thesis by (simp add: setAttrChanges_def quiet_refl)
next
  case (Some node)
  show ?thesis
  proof (cases "pathFromNodeHelper s (nodeHandle s node)")
    case (Inl err)
    then show ?thesis using Some by (simp add: setAttrChanges_def quiet_refl)
  next
    case (Inr p)
    obtain r1 s1 where ge: "getEntryLocked e (ChildPathNoPtr p (opOldName o1)) s = (r1, s1)"
      by (cases "getEntryLocked e (ChildPathNoPtr p (opOldName o1)) s")
    have q1: "quiet s s1" using ge by (rule getEntryLocked_quietD)
    show ?thesis
    proof (cases r1)
      case (Inl err)
      then show ?thesis using Some Inr ge q1 by (simp add: setAttrChanges_def)
    next
      case (Inr bd)
      obtain dblock de where bd: "bd = (dblock, de)" by (cases bd)
      show ?thesis
      proof (cases "nodeGet s1 (BlockPointer (de_BlockInfo de))")
        case None
        then show ?thesis using Some \<open>pathFromNodeHelper s (nodeHandle s node) = Inr p\<close> ge q1 Inr bd
          by (simp add: setAttrChanges_def)
      next
        case (Some childNode)
        obtain r2 s2 where fx: "fixupDeCache e o1 p de s1 = (r2, s2)"
          by (cases "fixupDeCache e o1 p de s1")
        have q2: "quiet s s2" using q1 fixupDeCache_quietD [OF fx] by (rule quiet_trans)
        show ?thesis
          using \<open>nodeGet s (opDirRef o1) = Some node\<close>
            \<open>pathFromNodeHelper s (nodeHandle s node) = Inr p\<close> ge Inr bd Some fx q2
          by (cases r2) (simp_all add: setAttrChanges_def)
      qed
    qed
  qed
qed

lemma unlinkMove_quiet:
  "quiet s (snd (case unlinkFromCache o1 u n nm s of
                   (Some err, s1) \<Rightarrow> (None, s1)
                 | (None, s1) \<Rightarrow>
                    (case Move e r n nm' s1 of
                       (Some err, s2) \<Rightarrow> (None, s2)
                     | (None, s2) \<Rightarrow> (Some ch, s2))))"
proof -
  obtain r1 s1 where u: "unlinkFromCache o1 u n nm s = (r1, s1)"
    by (cases "unlinkFromCache o1 u n nm s")
  obtain r2 s2 where m: "Move e r n nm' s1 = (r2, s2)" by (cases "Move e r n nm' s1")
  have q1: "quiet s s1" using u by (rule unlinkFromCache_quietD)
  have q2: "quiet s s2" using q1 Move_quietD [OF m] by (rule quiet_trans)
  show ?thesis using u m q1 q2 by (cases r1; cases r2) simp_all
qed

lemma renameChanges_quiet: "quiet s (snd (renameChanges e o1 md s))"
proof -
  obtain a b c where t:
    "(case opRename o1 of None \<Rightarrow> (zeroPtr, zeroPtr, zeroPtr) | Some t \<Rightarrow> t) = (a, b, c)"
    by (cases "case opRename o1 of None \<Rightarrow> (zeroPtr, zeroPtr, zeroPtr) | Some t \<Rightarrow> t") auto
  show ?thesis unfolding renameChanges_def Let_def t
    by (simp add: quiet_refl unlinkMove_quiet split: option.splits)
qed

lemma nodeChanges_quiet: "quiet s (snd (nodeChanges e o1 md s))"
proof (cases "opKind o1")
  case rmOp
  show ?thesis
  proof (cases "nodeGet s (opDirRef o1)")
    case None
    then show ?thesis using rmOp by (simp add: nodeChanges_def quiet_refl)
  next
    case (Some node)
    obtain r1 s1 where u: "unlinkFromCache o1 (opDirUnref o1) node (opOldName o1) s = (r1, s1)"
      by (cases "unlinkFromCache o1 (opDirUnref o1) node (opOldName o1) s")
    have "quiet s s1" using u by (rule unlinkFromCache_quietD)
    then show ?thesis using rmOp Some u by (cases r1) (simp_all add: nodeChanges_def)
  qed
qed (simp_all add: nodeChanges_def quiet_refl renameChanges_quiet setAttrChanges_quiet
      split: option.splits)

lemma BatchChanges_fold:
  "foldl (\<lambda>s1 ob. emit (EvBatchChanges ob ch) s1) s obs =
   s\<lparr>trace := trace s @ batches obs ch\<rparr>"
  by (induction obs arbitrary: s) (simp_all add: emit_def batches_def)

lemma BatchChanges_trace: "BatchChanges ch s = s\<lparr>trace := trace s @ batches (observers s) ch\<rparr>"
  by (simp add: BatchChanges_def BatchChanges_fold)



lemma notifyOneOpLocked_steps:
  obtains s1 s2 r where
    "quiet s s1" "s1 = updatePointers o1 s"
    "nodeChanges e o1 md (emit (EvNotifyOneOp o1 (Revision md)) s1) = (r, s2)"
    "quiet (emit (EvNotifyOneOp o1 (Revision md)) s1) s2"
    "notifyOneOpLocked e o1 md s =
       (case r of None \<Rightarrow> s2
        | Some ch \<Rightarrow> s2\<lparr>trace := trace s2 @ batches (observers s2) ch\<rparr>)"
proof -
  let ?s1 = "updatePointers o1 s"
  let ?s1e = "emit (EvNotifyOneOp o1 (Revision md)) ?s1"
  obtain r s2 where n: "nodeChanges e o1 md ?s1e = (r, s2)" by (cases "nodeChanges e o1 md ?s1e")
  have q: "quiet ?s1e s2" using nodeChanges_quiet [of ?s1e e o1 md] n by simp
  have "notifyOneOpLocked e o1 md s =
       (case r of None \<Rightarrow> s2
        | Some ch \<Rightarrow> s2\<lparr>trace := trace s2 @ batches (observers s2) ch\<rparr>)"
    using n by (simp add: notifyOneOpLocked_def BatchChanges_trace split: option.splits)
  then show thesis using that [OF updatePointers_quiet refl n q] by blast
qed





lemma MetadataID_idOf_err:
  "MetadataID e md = Inl err \<Longrightarrow> idOf e md = Inl err"
  by (auto simp: MetadataID_def idOf_def split: if_splits sum.splits)











lemma finalizeBlocks_frame:
  "head (snd (finalizeBlocks e bps s)) = head s \<and>
   staged (snd (finalizeBlocks e bps s)) = staged s \<and>
   bid (snd (finalizeBlocks e bps s)) = bid s \<and>
   folderBranch (snd (finalizeBlocks e bps s)) = folderBranch s \<and>
   trace (snd (finalizeBlocks e bps s)) = trace s"
  by (induction bps arbitrary: s) (auto split: option.splits)

lemma transitionState_frame:
  "head (transitionState n s) = head s \<and> staged (transitionState n s) = staged s \<and>
   bid (transitionState n s) = bid s \<and> trace (transitionState n s) = trace s \<and>
   folderBranch (transitionState n s) = folderBranch s"
  by (simp add: transitionState_def split: state.splits)

lemma setHeadLocked_frame:
  assumes "head s \<noteq> None"
  shows "staged (snd (setHeadLocked e md s)) = staged s \<and>
         bid (snd (setHeadLocked e md s)) = bid s \<and>
         head (snd (setHeadLocked e md s)) \<noteq> None \<and>
         (\<exists>t. trace (snd (setHeadLocked e md s)) = trace s @ t)"
  using assms
  by (auto simp: setHeadLocked_def Let_def emit_def setStagedLocked_def
      split: option.splits sum.splits prod.splits if_splits)

lemma notifyOneOpLocked_frame:
  "staged (notifyOneOpLocked e o1 md s) = staged s \<and>
   bid (notifyOneOpLocked e o1 md s) = bid s \<and>
   (\<exists>t. trace (notifyOneOpLocked e o1 md s) = trace s @ t)"
proof -
  obtain s1 s2 r where a: "quiet s s1"
    and b: "quiet (emit (EvNotifyOneOp o1 (Revision md)) s1) s2"
    and c: "notifyOneOpLocked e o1 md s =
       (case r of None \<Rightarrow> s2
        | Some ch \<Rightarrow> s2\<lparr>trace := trace s2 @ batches (observers s2) ch\<rparr>)"
    by (rule notifyOneOpLocked_steps [of s o1 e md]) blast
  show ?thesis using quiet_frame [OF a] quiet_frame [OF b] c
    by (auto simp: emit_def split: option.splits)
qed

lemma notifyBatchLocked_frame:
  "staged (snd (notifyBatchLocked e md s)) = staged s \<and>
   bid (snd (notifyBatchLocked e md s)) = bid s \<and>
   (\<exists>t. trace (snd (notifyBatchLocked e md s)) = trace s @ t)"
  using notifyOneOpLocked_frame
  by (simp add: notifyBatchLocked_def split: option.splits)


subsection \<open>Publishing under a conflict, and remote revisions\<close>

lemma finalizeMDWrite_tail_frame:
  assumes "head s \<noteq> None"
  shows "staged (snd (finalizeMDWrite_tail e md bps d s)) = staged s \<and>
         bid (snd (finalizeMDWrite_tail e md bps d s)) = bid s \<and>
         (\<exists>t. trace (snd (finalizeMDWrite_tail e md bps d s)) = trace s @ t)"
proof (cases "swapCachedChanges md")
  case (Inl err)
  then show ?thesis by (simp add: finalizeMDWrite_tail_def emit_def)
next
  case (Inr md1)
  define s1 where "s1 = transitionState cleanState s"
  obtain r2 s2 where fb: "finalizeBlocks e bps s1 = (r2, s2)" by (cases "finalizeBlocks e bps s1")
  have s2: "head s2 \<noteq> None" "staged s2 = staged s" "bid s2 = bid s" "trace s2 = trace s"
    using finalizeBlocks_frame [of e bps s1] fb transitionState_frame [of cleanState s] assms
    by (simp_all add: s1_def)
  show ?thesis
  proof (cases r2)
    case (Some err)
    with Inr fb s2 show ?thesis
      by (simp add: finalizeMDWrite_tail_def Let_def s1_def [symmetric] emit_def)
  next
    case None
    obtain r3 s3 where sh: "setHeadLocked e md1 s2 = (r3, s3)" by (cases "setHeadLocked e md1 s2")
    from setHeadLocked_frame [OF s2(1), of e md1] sh obtain t3 where
      s3: "staged s3 = staged s2" "bid s3 = bid s2" "trace s3 = trace s2 @ t3" by auto
    show ?thesis
    proof (cases r3)
      case (Some err)
      with Inr fb None sh s2 s3 show ?thesis
        by (simp add: finalizeMDWrite_tail_def Let_def s1_def [symmetric] emit_def)
    next
      case n3: None
      obtain r4 s4 where nb: "notifyBatchLocked e md1 s3 = (r4, s4)"
        by (cases "notifyBatchLocked e md1 s3")
      from notifyBatchLocked_frame [of e md1 s3] nb obtain t4 where
        s4: "staged s4 = staged s3" "bid s4 = bid s3" "trace s4 = trace s3 @ t4" by auto
      from Inr fb None sh n3 nb s2 s3 s4 show ?thesis
        by (simp add: finalizeMDWrite_tail_def Let_def s1_def [symmetric] emit_def)
    qed
  qed
qed

lemma finalize_conflict_eq:
  assumes "\<not> staged s" "e_MDPut e md = Some err"
      "err = MDServerErrorConflictRevision \<or> err = MDServerErrorConflictPrevRoot \<or>
       err = MDServerErrorConflictDiskUsage"
      "e_MakeRandomBranchID e = Inr b" "e_PutUnmerged e md b = None"
  shows "finalizeMDWriteLocked e md bps s =
           finalizeMDWrite_tail e md bps False
             (s\<lparr>staged := True, bid := b,
                trace := trace s @ [EvMDPut md, EvMakeRandomBranchID, EvPutUnmerged md b,
                                   EvResolve (Revision md) (Revision md)]\<rparr>)"
  using assms
  by (auto simp: finalizeMDWriteLocked_def isRevisionConflict_def Let_def emit_def
      setStagedLocked_def)

lemmas concrete_defs = fbo0_def env0_def md0_def de0_def fb0_def ptr0_def noChanges_def
  zeroPtr_def opA_def md6_def md6copied_def fboH_def fboDirty_def envConflict_def
  envPutUnmergedFails_def envUpdates_def

lemmas engine_defs = finalizeMDWriteLocked_def finalizeMDWrite_tail_def swapCachedChanges_def
  isRevisionConflict_def setStagedLocked_def setHeadLocked_def MetadataID_def NullMDId_def
  transitionState_def notifyBatchLocked_def notifyOneOpLocked_def updatePointers_def
  emit_def UpdatePointer_def Let_def applyMDUpdatesLocked_def undoMDUpdatesLocked_def
  getState_def
  getCurrMDRevisionLocked_def MetadataRevisionUninitialized_def applyMDUpdates_def
  getAndApplyMDUpdates_def pumpOnUpdate_def isNotPermittedWhileDirty_def NullBranchID_def

text \<open>
  C4. When the engine is not staged and the put of the revision fails with a revision,
  previous-root or disk-usage conflict, \<^verbatim>\<open>finalizeMDWriteLocked\<close> draws a random branch
  id \<open>b\<close>, publishes the revision with \<^verbatim>\<open>PutUnmerged\<close> under \<open>b\<close>, sets the staged flag
  with \<open>b\<close> and dispatches the resolver with the revision's number twice (its own
  revision and, as last known merged revision, the one that conflicted); the rest of the
  call (caching blocks, installing the head, notifying) starts from that state, and with a
  head installed it keeps the flag, the branch id and the four calls.
\<close>

theorem C4_conflict_switches_to_unmerged:
  assumes "\<not> staged s" and "e_MDPut e md = Some err"
      and "err = MDServerErrorConflictRevision \<or> err = MDServerErrorConflictPrevRoot \<or>
           err = MDServerErrorConflictDiskUsage"
      and "e_MakeRandomBranchID e = Inr b" and "e_PutUnmerged e md b = None"
  shows "finalizeMDWriteLocked e md bps s =
           finalizeMDWrite_tail e md bps False
             (s\<lparr>staged := True, bid := b,
                trace := trace s @ [EvMDPut md, EvMakeRandomBranchID, EvPutUnmerged md b,
                                   EvResolve (Revision md) (Revision md)]\<rparr>)
         \<and> (head s \<noteq> None \<longrightarrow>
              staged (snd (finalizeMDWriteLocked e md bps s)) \<and>
              bid (snd (finalizeMDWriteLocked e md bps s)) = b \<and>
              (\<exists>t. trace (snd (finalizeMDWriteLocked e md bps s)) =
                     trace s @ [EvMDPut md, EvMakeRandomBranchID, EvPutUnmerged md b,
                                EvResolve (Revision md) (Revision md)] @ t))"
proof -
  let ?s5 = "s\<lparr>staged := True, bid := b,
                trace := trace s @ [EvMDPut md, EvMakeRandomBranchID, EvPutUnmerged md b,
                                   EvResolve (Revision md) (Revision md)]\<rparr>"
  have eq: "finalizeMDWriteLocked e md bps s = finalizeMDWrite_tail e md bps False ?s5"
    using assms by (rule finalize_conflict_eq)
  have "head s \<noteq> None \<Longrightarrow>
        staged (snd (finalizeMDWrite_tail e md bps False ?s5)) \<and>
        bid (snd (finalizeMDWrite_tail e md bps False ?s5)) = b \<and>
        (\<exists>t. trace (snd (finalizeMDWrite_tail e md bps False ?s5)) = trace ?s5 @ t)"
    using finalizeMDWrite_tail_frame [of ?s5 e md bps False] by simp
  with eq show ?thesis by simp
qed

theorem C4_conflict_switches_to_unmerged_witness:
  "\<not> staged fboH \<and> e_MDPut envConflict md6 = Some MDServerErrorConflictRevision
   \<and> e_MakeRandomBranchID envConflict = Inr 42 \<and> e_PutUnmerged envConflict md6 42 = None
   \<and> head fboH \<noteq> None
   \<and> fst (finalizeMDWriteLocked envConflict md6 [] fboH) = None
   \<and> staged (snd (finalizeMDWriteLocked envConflict md6 [] fboH))
   \<and> bid (snd (finalizeMDWriteLocked envConflict md6 [] fboH)) = 42
   \<and> take 4 (trace (snd (finalizeMDWriteLocked envConflict md6 [] fboH))) =
       [EvMDPut md6, EvMakeRandomBranchID, EvPutUnmerged md6 42, EvResolve 6 6]"
proof -
  have h: "\<not> staged fboH" "e_MDPut envConflict md6 = Some MDServerErrorConflictRevision"
     "e_MakeRandomBranchID envConflict = Inr 42" "e_PutUnmerged envConflict md6 42 = None"
     "head fboH \<noteq> None"
    by (simp_all add: concrete_defs)
  have r: "Revision md6 = 6" by (simp add: md6_def)
  have t: "trace fboH = []" by (simp add: fboH_def fbo0_def)
  have f: "fst (finalizeMDWriteLocked envConflict md6 [] fboH) = None"
    by (simp add: concrete_defs engine_defs)
  from C4_conflict_switches_to_unmerged [OF h(1) h(2) _ h(3) h(4), of "[]", THEN conjunct2]
    h(5) r t
  have "staged (snd (finalizeMDWriteLocked envConflict md6 [] fboH)) \<and>
        bid (snd (finalizeMDWriteLocked envConflict md6 [] fboH)) = 42 \<and>
        (\<exists>t. trace (snd (finalizeMDWriteLocked envConflict md6 [] fboH)) =
           [EvMDPut md6, EvMakeRandomBranchID, EvPutUnmerged md6 42, EvResolve 6 6] @ t)"
    by simp
  then show ?thesis using h f by auto
qed

text \<open>
  C8. The claim is that an error of \<^verbatim>\<open>PutUnmerged\<close> is returned to the caller. On the
  code it is not: with a conflicting merged put and a failing \<^verbatim>\<open>PutUnmerged\<close>,
  \<^verbatim>\<open>finalizeMDWriteLocked\<close> returns nil, the engine is not staged, the head is the old
  one and nothing after the failed put is called.
\<close>

theorem C8_putUnmerged_error_is_dropped:
  "e_PutUnmerged envPutUnmergedFails md6 42 = Some (CollabError 1)
   \<and> fst (finalizeMDWriteLocked envPutUnmergedFails md6 [] fboH) = None
   \<and> \<not> staged (snd (finalizeMDWriteLocked envPutUnmergedFails md6 [] fboH))
   \<and> head (snd (finalizeMDWriteLocked envPutUnmergedFails md6 [] fboH)) = Some md0
   \<and> trace (snd (finalizeMDWriteLocked envPutUnmergedFails md6 [] fboH)) =
       [EvMDPut md6, EvMakeRandomBranchID, EvPutUnmerged md6 42]"
  by (simp add: concrete_defs engine_defs)

text \<open>
  C7. The claim is that applying remote revisions while dirty is refused with the
  \<open>NotPermittedWhileDirtyError\<close> variant and that the pump then sleeps. On the code the
  refusal leaves the engine unchanged but is an untyped error, the pump's test for the
  variant fails and it registers again without the delay; the undo path does return the
  variant.
\<close>

theorem C7_apply_while_dirty_is_generic_error:
  "getState fboDirty \<noteq> cleanState \<and> \<not> staged fboDirty
   \<and> applyMDUpdatesLocked env0 [md6] fboDirty =
       (Some (GenericError ''Ignoring MD updates while writes are dirty''), fboDirty)
   \<and> \<not> isNotPermittedWhileDirty (GenericError ''Ignoring MD updates while writes are dirty'')
   \<and> undoMDUpdatesLocked env0 [md6] fboDirty = (Some NotPermittedWhileDirtyError, fboDirty)
   \<and> fst (pumpOnUpdate envUpdates None fboDirty) =
       Some (GenericError ''Ignoring MD updates while writes are dirty'')
   \<and> trace (snd (pumpOnUpdate envUpdates None fboDirty)) =
       [EvLockMDWriter, EvUnlockMDWriter, EvRegisterForUpdates]"
  by (simp add: concrete_defs engine_defs)













section \<open>Blocks, offsets and reading\<close>

text \<open>
  \<^verbatim>\<open>getFileBlockHelperLocked\<close>, \<^verbatim>\<open>getFileBlockLocked\<close> and \<^verbatim>\<open>getFileLocked\<close>. The deep
  copy that \<^verbatim>\<open>getFileBlockLocked\<close> makes for a write does not change the value; which
  blocks are shared with the cache is decided where they are mutated.
\<close>

definition getFileBlockHelperLocked ::
  "env \<Rightarrow> BlockPointer \<Rightarrow> fbo \<Rightarrow> (error + FileBlock) \<times> fbo" where
  "getFileBlockHelperLocked e ptr s =
     (case getBlockHelperLocked e ptr True s of
        (Inl err, s') \<Rightarrow> (Inl err, s')
      | (Inr (FileBlk fb), s') \<Rightarrow> (Inr fb, s')
      | (Inr _, s') \<Rightarrow> (Inl NotFileBlockError, s'))"

definition getFileBlockLocked ::
  "env \<Rightarrow> BlockPointer \<Rightarrow> path \<Rightarrow> mdReqType \<Rightarrow> fbo \<Rightarrow> (error + FileBlock) \<times> fbo" where
  "getFileBlockLocked e ptr file rtype s =
     (if \<not> isValid file then (Inl InvalidPathError, s)
      else getFileBlockHelperLocked e ptr s)"

definition getFileLocked ::
  "env \<Rightarrow> path \<Rightarrow> mdReqType \<Rightarrow> fbo \<Rightarrow> (error + FileBlock) \<times> fbo" where
  "getFileLocked e file rtype s = getFileBlockLocked e (tailPointer file) file rtype s"

text \<open>
  The inner loop of \<^verbatim>\<open>getFileBlockAtOffsetLocked\<close>: the index of the pointer whose offset
  is \<open>off\<close>, or of the one before the first pointer past \<open>off\<close>, or the last index.
\<close>

fun findNextIndex :: "IndirectFilePtr list \<Rightarrow> int \<Rightarrow> int \<Rightarrow> int \<Rightarrow> int" where
  "findNextIndex [] off i dflt = dflt"
| "findNextIndex (p # ps) off i dflt =
     (if Off p = off then i
      else if Off p > off then i - 1
      else findNextIndex ps off (i + 1) dflt)"

text \<open>
  The results of \<^verbatim>\<open>getFileBlockAtOffsetLocked\<close>. The outer loop follows indirect blocks
  for as long as it meets them, so it is a partial function: \<open>None\<close> is a descent that
  never ends.
\<close>

record located =
  l_ptr :: BlockPointer
  l_parentBlock :: "FileBlock option"
  l_parentPtr :: "BlockPointer option"
  l_indexInParent :: nat
  l_block :: FileBlock
  l_more :: bool
  l_startOff :: int

partial_function (option) descend ::
  "env \<Rightarrow> path \<Rightarrow> int \<Rightarrow> mdReqType \<Rightarrow> located \<Rightarrow> fbo \<Rightarrow> ((error + located) \<times> fbo) option" where
  "descend e file off rtype l s =
     (if \<not> IsInd (l_block l) then Some (Inr l, s)
      else
        (let iptrs = IPtrs (l_block l);
             nextIndex = findNextIndex iptrs off 0 (int (length iptrs) - 1)
         in if nextIndex < 0 \<or> nextIndex \<ge> int (length iptrs)
            then Some (Inl (Panic ''index out of range''), s)
            else
              (let nextPtr = iptrs ! nat nextIndex;
                   ptr = BlockPointer (ifp_BlockInfo nextPtr)
               in case getFileBlockLocked e ptr file rtype s of
                    (Inl err, s') \<Rightarrow> Some (Inl err, s')
                  | (Inr b, s') \<Rightarrow>
                      descend e file off rtype
                        \<lparr>l_ptr = ptr, l_parentBlock = Some (l_block l),
                         l_parentPtr = Some (l_ptr l),
                         l_indexInParent = nat nextIndex, l_block = b,
                         l_more = (l_more l \<or> nextIndex \<noteq> int (length iptrs) - 1),
                         l_startOff = Off nextPtr\<rparr> s')))"

definition getFileBlockAtOffsetLocked ::
  "env \<Rightarrow> path \<Rightarrow> FileBlock \<Rightarrow> int \<Rightarrow> mdReqType \<Rightarrow> fbo \<Rightarrow> ((error + located) \<times> fbo) option" where
  "getFileBlockAtOffsetLocked e file topBlock off rtype s =
     descend e file off rtype
       \<lparr>l_ptr = tailPointer file, l_parentBlock = None, l_parentPtr = None,
        l_indexInParent = 0, l_block = topBlock, l_more = False, l_startOff = 0\<rparr> s"

text \<open>
  \<^verbatim>\<open>readLocked\<close>. Offsets are Go \<^verbatim>\<open>int64\<close>, here unbounded integers; the destination
  buffer is returned with the bytes copied into it. A negative slice index panics.
\<close>

partial_function (option) readLocked_loop ::
  "env \<Rightarrow> path \<Rightarrow> FileBlock \<Rightarrow> int \<Rightarrow> byte list \<Rightarrow> int \<Rightarrow> fbo
   \<Rightarrow> ((error + int) \<times> byte list \<times> fbo) option" where
  "readLocked_loop e file fblock off dest nRead s =
     (let n = int (length dest) in
      if nRead < n then
        (let nextByte = nRead + off;
             toRead = n - nRead
         in case getFileBlockAtOffsetLocked e file fblock nextByte mdReadNeedIdentify s of
              None \<Rightarrow> None
            | Some (Inl err, s') \<Rightarrow> Some (Inl err, dest, s')
            | Some (Inr l, s') \<Rightarrow>
               (let blockLen = int (length (Contents (l_block l)));
                    lastByteInBlock = l_startOff l + blockLen
                in if nextByte \<ge> lastByteInBlock then Some (Inr nRead, dest, s')
                   else
                    (let toRead' = (if toRead > lastByteInBlock - nextByte
                                    then lastByteInBlock - nextByte else toRead);
                         firstByteToRead = nextByte - l_startOff l
                     in if firstByteToRead < 0
                        then Some (Inl (Panic ''slice bounds out of range''), dest, s')
                        else readLocked_loop e file fblock off
                               (take (nat nRead) dest @
                                take (nat toRead') (drop (nat firstByteToRead) (Contents (l_block l))) @
                                drop (nat (nRead + toRead')) dest)
                               (nRead + toRead') s')))
      else Some (Inr n, dest, s))"

definition readLocked ::
  "env \<Rightarrow> path \<Rightarrow> byte list \<Rightarrow> int \<Rightarrow> fbo \<Rightarrow> ((error + int) \<times> byte list \<times> fbo) option" where
  "readLocked e file dest off s =
     (case getFileLocked e file mdReadNeedIdentify s of
        (Inl err, s') \<Rightarrow> Some (Inl err, dest, s')
      | (Inr fblock, s') \<Rightarrow> readLocked_loop e file fblock off dest 0 s')"

text \<open>
  What a lookup of a pointer yields: the cached block or, failing that, the block the block
  server returns (which is then cached). \<open>fileContents\<close> says that the file at a path
  is made of the given chunks: a direct block holding the only chunk, or an indirect block
  whose children are direct, hold the chunks and start at the running total of their
  lengths.
\<close>

definition blockOf :: "env \<Rightarrow> fbo \<Rightarrow> BlockPointer \<Rightarrow> Block option" where
  "blockOf e s ptr =
     (if \<not> IsValid ptr then None
      else case bcache_Get s ptr of
             Some b \<Rightarrow> Some b
           | None \<Rightarrow> (case e_BlockGet e ptr of
                        Inl err \<Rightarrow> None
                      | Inr b \<Rightarrow> if e_BlockCachePut e ptr = None then Some b else None))"

fun wfChildren :: "env \<Rightarrow> fbo \<Rightarrow> IndirectFilePtr list \<Rightarrow> int \<Rightarrow> byte list list \<Rightarrow> bool" where
  "wfChildren e s [] off [] = True"
| "wfChildren e s (p # ps) off (c # cs) =
     (Off p = off \<and>
      (case blockOf e s (BlockPointer (ifp_BlockInfo p)) of
         Some (FileBlk b) \<Rightarrow> \<not> IsInd b \<and> Contents b = c
       | _ \<Rightarrow> False) \<and>
      wfChildren e s ps (off + int (length c)) cs)"
| "wfChildren e s [] off (c # cs) = False"
| "wfChildren e s (p # ps) off [] = False"

definition fileContents :: "env \<Rightarrow> fbo \<Rightarrow> path \<Rightarrow> byte list list \<Rightarrow> bool" where
  "fileContents e s file chunks =
     (isValid file \<and>
      (case blockOf e s (tailPointer file) of
         Some (FileBlk tb) \<Rightarrow>
           if IsInd tb then IPtrs tb \<noteq> [] \<and> wfChildren e s (IPtrs tb) 0 chunks
           else chunks = [Contents tb]
       | _ \<Rightarrow> False))"

section \<open>The public operations\<close>

text \<open>
  For the operations whose work after the guard is not the subject of a property here,
  that work is the first parameter of the model: the function the operation goes on with.
\<close>

definition checkNode :: "fbo \<Rightarrow> Node \<Rightarrow> error option" where
  "checkNode s node =
     (let fb = node_FolderBranch node in
      if fb \<noteq> folderBranch s then Some (WrongOpsError (folderBranch s) fb) else None)"

text \<open>Readers and writers of the handle, as in \<^verbatim>\<open>data_types.go\<close>.\<close>

definition PublicUid :: UID where
  "PublicUid = 1"

definition IsWriter :: "RootMetadata \<Rightarrow> UID \<Rightarrow> bool" where
  "IsWriter md user = (user \<in> set (md_Writers md))"

definition IsPublic :: "RootMetadata \<Rightarrow> bool" where
  "IsPublic md = (length (md_Readers md) = 1 \<and> md_Readers md ! 0 = PublicUid)"

definition IsReader :: "RootMetadata \<Rightarrow> UID \<Rightarrow> bool" where
  "IsReader md user = (IsPublic md \<or> user \<in> set (md_Readers md) \<or> IsWriter md user)"

definition getMDForReadHelper ::
  "env \<Rightarrow> mdReqType \<Rightarrow> fbo \<Rightarrow> (error + RootMetadata) \<times> fbo" where
  "getMDForReadHelper e rtype s =
     (case getMDLocked e rtype s of
        (Inl err, s1) \<Rightarrow> (Inl err, s1)
      | (Inr md, s1) \<Rightarrow>
         (case e_GetCurrentUID e of
            Inl err \<Rightarrow> (Inl err, s1)
          | Inr uid \<Rightarrow> if \<not> IsReader md uid then (Inl ReadAccessError, s1) else (Inr md, s1)))"

definition getMDForWriteLocked :: "env \<Rightarrow> fbo \<Rightarrow> (error + RootMetadata) \<times> fbo" where
  "getMDForWriteLocked e s =
     (case getMDLocked e mdWrite s of
        (Inl err, s1) \<Rightarrow> (Inl err, s1)
      | (Inr md, s1) \<Rightarrow>
         (case e_GetCurrentUID e of
            Inl err \<Rightarrow> (Inl err, s1)
          | Inr uid \<Rightarrow>
             if \<not> IsWriter md uid then (Inl WriteAccessError, s1)
             else (case e_MakeSuccessor e md of
                     Inl err \<Rightarrow> (Inl err, s1)
                   | Inr newMd \<Rightarrow> (Inr newMd, s1))))"

definition Read ::
  "env \<Rightarrow> Node \<Rightarrow> byte list \<Rightarrow> int \<Rightarrow> fbo \<Rightarrow> ((error + int) \<times> byte list \<times> fbo) option" where
  "Read e file dest off s =
     (case checkNode s file of
        Some err \<Rightarrow> Some (Inl err, dest, s)
      | None \<Rightarrow>
         (case getMDForReadHelper e mdReadNeedIdentify s of
            (Inl err, s1) \<Rightarrow> Some (Inl err, dest, s1)
          | (Inr md, s1) \<Rightarrow>
             (case pathFromNodeHelper s1 file of
                Inl err \<Rightarrow> Some (Inl err, dest, s1)
              | Inr filePath \<Rightarrow> readLocked e filePath dest off s1)))"

definition GetDirChildren ::
  "(Node \<Rightarrow> fbo \<Rightarrow> (error + 'a) \<times> fbo) \<Rightarrow> Node \<Rightarrow> fbo \<Rightarrow> (error + 'a) \<times> fbo" where
  "GetDirChildren rest dir s =
     (case checkNode s dir of Some err \<Rightarrow> (Inl err, s) | None \<Rightarrow> rest dir s)"

definition Lookup ::
  "(Node \<Rightarrow> string \<Rightarrow> fbo \<Rightarrow> (error + 'a) \<times> fbo) \<Rightarrow> Node \<Rightarrow> string \<Rightarrow> fbo
   \<Rightarrow> (error + 'a) \<times> fbo" where
  "Lookup rest dir name s =
     (case checkNode s dir of Some err \<Rightarrow> (Inl err, s) | None \<Rightarrow> rest dir name s)"

definition statEntry ::
  "(Node \<Rightarrow> fbo \<Rightarrow> (error + 'a) \<times> fbo) \<Rightarrow> Node \<Rightarrow> fbo \<Rightarrow> (error + 'a) \<times> fbo" where
  "statEntry rest node s =
     (case checkNode s node of Some err \<Rightarrow> (Inl err, s) | None \<Rightarrow> rest node s)"

definition Stat ::
  "(Node \<Rightarrow> fbo \<Rightarrow> (error + 'a) \<times> fbo) \<Rightarrow> Node \<Rightarrow> fbo \<Rightarrow> (error + 'a) \<times> fbo" where
  "Stat rest node s = statEntry rest node s"

definition withMDWriterLock :: "(fbo \<Rightarrow> 'r \<times> fbo) \<Rightarrow> fbo \<Rightarrow> 'r \<times> fbo" where
  "withMDWriterLock f s =
     (case f (emit EvLockMDWriter s) of (r, s1) \<Rightarrow> (r, emit EvUnlockMDWriter s1))"

definition CreateDir ::
  "(Node \<Rightarrow> string \<Rightarrow> EntryType \<Rightarrow> fbo \<Rightarrow> (error + 'a) \<times> fbo) \<Rightarrow> Node \<Rightarrow> string \<Rightarrow> fbo
   \<Rightarrow> (error + 'a) \<times> fbo" where
  "CreateDir createEntryLocked dir name s =
     (case checkNode s dir of
        Some err \<Rightarrow> (Inl err, s)
      | None \<Rightarrow> withMDWriterLock (createEntryLocked dir name Dir) s)"

definition CreateFile ::
  "(Node \<Rightarrow> string \<Rightarrow> EntryType \<Rightarrow> fbo \<Rightarrow> (error + 'a) \<times> fbo) \<Rightarrow> Node \<Rightarrow> string \<Rightarrow> bool
   \<Rightarrow> fbo \<Rightarrow> (error + 'a) \<times> fbo" where
  "CreateFile createEntryLocked dir name isExec s =
     (case checkNode s dir of
        Some err \<Rightarrow> (Inl err, s)
      | None \<Rightarrow> withMDWriterLock (createEntryLocked dir name (if isExec then Exec else File)) s)"

definition CreateLink ::
  "(Node \<Rightarrow> string \<Rightarrow> string \<Rightarrow> fbo \<Rightarrow> (error + 'a) \<times> fbo) \<Rightarrow> Node \<Rightarrow> string \<Rightarrow> string
   \<Rightarrow> fbo \<Rightarrow> (error + 'a) \<times> fbo" where
  "CreateLink createLinkLocked dir fromName toPath s =
     (case checkNode s dir of
        Some err \<Rightarrow> (Inl err, s)
      | None \<Rightarrow> withMDWriterLock (createLinkLocked dir fromName toPath) s)"

definition RemoveDir ::
  "env \<Rightarrow> (RootMetadata \<Rightarrow> path \<Rightarrow> string \<Rightarrow> fbo \<Rightarrow> error option \<times> fbo) \<Rightarrow> Node \<Rightarrow> string
   \<Rightarrow> fbo \<Rightarrow> error option \<times> fbo" where
  "RemoveDir e rest dir dirName s =
     (case checkNode s dir of
        Some err \<Rightarrow> (Some err, s)
      | None \<Rightarrow>
         withMDWriterLock (\<lambda>s0.
           case getMDForWriteLocked e s0 of
             (Inl err, s1) \<Rightarrow> (Some err, s1)
           | (Inr md, s1) \<Rightarrow>
              (case pathFromNodeHelper s1 dir of
                 Inl err \<Rightarrow> (Some err, s1)
               | Inr dirPath \<Rightarrow> rest md dirPath dirName s1)) s)"

definition RemoveEntry ::
  "env \<Rightarrow> (RootMetadata \<Rightarrow> path \<Rightarrow> string \<Rightarrow> fbo \<Rightarrow> error option \<times> fbo) \<Rightarrow> Node \<Rightarrow> string
   \<Rightarrow> fbo \<Rightarrow> error option \<times> fbo" where
  "RemoveEntry e removeEntryLocked dir name s =
     (case checkNode s dir of
        Some err \<Rightarrow> (Some err, s)
      | None \<Rightarrow>
         withMDWriterLock (\<lambda>s0.
           case getMDForWriteLocked e s0 of
             (Inl err, s1) \<Rightarrow> (Some err, s1)
           | (Inr md, s1) \<Rightarrow>
              (case pathFromNodeHelper s1 dir of
                 Inl err \<Rightarrow> (Some err, s1)
               | Inr dirPath \<Rightarrow> removeEntryLocked md dirPath name s1)) s)"

definition Rename ::
  "(path \<Rightarrow> string \<Rightarrow> path \<Rightarrow> string \<Rightarrow> Node \<Rightarrow> fbo \<Rightarrow> error option \<times> fbo) \<Rightarrow> Node \<Rightarrow> string
   \<Rightarrow> Node \<Rightarrow> string \<Rightarrow> fbo \<Rightarrow> error option \<times> fbo" where
  "Rename renameLocked oldParent oldName newParent newName s =
     (case checkNode s newParent of
        Some err \<Rightarrow> (Some err, s)
      | None \<Rightarrow>
         withMDWriterLock (\<lambda>s0.
           case pathFromNodeHelper s0 oldParent of
             Inl err \<Rightarrow> (Some err, s0)
           | Inr oldParentPath \<Rightarrow>
              (case pathFromNodeHelper s0 newParent of
                 Inl err \<Rightarrow> (Some err, s0)
               | Inr newParentPath \<Rightarrow>
                  if p_FolderBranch oldParentPath \<noteq> p_FolderBranch newParentPath
                  then (Some RenameAcrossDirsError, s0)
                  else renameLocked oldParentPath oldName newParentPath newName newParent s0)) s)"

definition SetEx ::
  "(path \<Rightarrow> bool \<Rightarrow> fbo \<Rightarrow> error option \<times> fbo) \<Rightarrow> Node \<Rightarrow> bool \<Rightarrow> fbo
   \<Rightarrow> error option \<times> fbo" where
  "SetEx setExLocked file ex s =
     (case checkNode s file of
        Some err \<Rightarrow> (Some err, s)
      | None \<Rightarrow>
         withMDWriterLock (\<lambda>s0.
           case pathFromNodeHelper s0 file of
             Inl err \<Rightarrow> (Some err, s0)
           | Inr filePath \<Rightarrow> setExLocked filePath ex s0) s)"

definition SetMtime ::
  "(path \<Rightarrow> int \<Rightarrow> fbo \<Rightarrow> error option \<times> fbo) \<Rightarrow> Node \<Rightarrow> int option \<Rightarrow> fbo
   \<Rightarrow> error option \<times> fbo" where
  "SetMtime setMtimeLocked file mtime s =
     (case mtime of
        None \<Rightarrow> (None, s)
      | Some t \<Rightarrow>
         (case checkNode s file of
            Some err \<Rightarrow> (Some err, s)
          | None \<Rightarrow>
             withMDWriterLock (\<lambda>s0.
               case pathFromNodeHelper s0 file of
                 Inl err \<Rightarrow> (Some err, s0)
               | Inr filePath \<Rightarrow> setMtimeLocked filePath t s0) s))"

subsection \<open>Reading at or past the end of the file\<close>

lemma getBlockHelperLocked_blockOf:
  assumes "blockOf e s ptr = Some b"
  shows "\<exists>s'. getBlockHelperLocked e ptr True s = (Inr b, s') \<and> blockOf e s' = blockOf e s"
proof (cases "bcache_Get s ptr")
  case (Some b')
  with assms show ?thesis
    by (auto simp: blockOf_def getBlockHelperLocked_def split: if_splits)
next
  case None
  with assms have v: "IsValid ptr" and g: "e_BlockGet e ptr = Inr b" and c: "e_BlockCachePut e ptr = None"
    by (auto simp: blockOf_def split: if_splits sum.splits)
  let ?s' = "s\<lparr>transientCache := (transientCache s)(ptr \<mapsto> b)\<rparr>"
  have "blockOf e ?s' q = blockOf e s q" for q
    using None g c by (auto simp: blockOf_def bcache_Get_def split: option.splits)
  then have "blockOf e ?s' = blockOf e s" by (rule ext)
  with None v g c show ?thesis by (simp add: getBlockHelperLocked_def)
qed

lemma getFileBlockLocked_blockOf:
  assumes "blockOf e s ptr = Some (FileBlk b)" "isValid file"
  shows "\<exists>s'. getFileBlockLocked e ptr file rtype s = (Inr b, s') \<and> blockOf e s' = blockOf e s"
  using getBlockHelperLocked_blockOf [OF assms(1)] assms(2)
  by (auto simp: getFileBlockLocked_def getFileBlockHelperLocked_def)

lemma wfChildren_cong:
  assumes "blockOf e s' = blockOf e s"
  shows "wfChildren e s' ps off cs = wfChildren e s ps off cs"
proof (induction ps arbitrary: off cs)
  case Nil
  show ?case by (cases cs) simp_all
next
  case (Cons p ps)
  show ?case by (cases cs) (simp_all add: Cons.IH assms)
qed

lemma fileContents_cong:
  assumes "blockOf e s' = blockOf e s"
  shows "fileContents e s' file cs = fileContents e s file cs"
  unfolding fileContents_def assms wfChildren_cong [OF assms] ..

lemma wfChildren_length: "wfChildren e s ps off cs \<Longrightarrow> length ps = length cs"
  by (induction e s ps off cs rule: wfChildren.induct) simp_all

lemma findNextIndex_eof:
  assumes "wfChildren e s ps base cs" "ps \<noteq> []" "off \<ge> base + int (length (concat cs))"
  shows "\<exists>k b. findNextIndex ps off i (i + int (length ps) - 1) = i + int k \<and> k < length ps \<and>
           Off (ps ! k) + int (length (cs ! k)) \<le> off \<and>
           blockOf e s (BlockPointer (ifp_BlockInfo (ps ! k))) = Some (FileBlk b) \<and>
           \<not> IsInd b \<and> Contents b = cs ! k"
  using assms
proof (induction e s ps base cs arbitrary: i rule: wfChildren.induct)
  case (2 e s p ps off' c cs)
  from "2.prems"(1) have op: "Off p = off'" and
    blk: "(case blockOf e s (BlockPointer (ifp_BlockInfo p)) of
         Some (FileBlk b) \<Rightarrow> \<not> IsInd b \<and> Contents b = c | _ \<Rightarrow> False)"
    and rest: "wfChildren e s ps (off' + int (length c)) cs" by simp_all
  from blk obtain b where b: "blockOf e s (BlockPointer (ifp_BlockInfo p)) = Some (FileBlk b)"
    "\<not> IsInd b" "Contents b = c"
    by (auto split: option.splits Block.splits)
  have here: "Off p + int (length c) \<le> off" using "2.prems"(3) op by simp
  show ?case
  proof (cases "Off p = off")
    case True
    then have "findNextIndex (p # ps) off i (i + int (length (p # ps)) - 1) = i + int 0" by simp
    with b here show ?thesis by (intro exI [of _ 0] exI [of _ b]) simp
  next
    case False
    with here have lt: "\<not> Off p > off" by simp
    show ?thesis
    proof (cases ps)
      case Nil
      then have "findNextIndex (p # ps) off i (i + int (length (p # ps)) - 1) = i + int 0"
        using False lt by simp
      with b here show ?thesis by (intro exI [of _ 0] exI [of _ b]) simp
    next
      case (Cons q qs)
      then have ne: "ps \<noteq> []" by simp
      have bound: "off' + int (length c) + int (length (concat cs)) \<le> off"
        using "2.prems"(3) by simp
      from "2.IH" [OF rest ne bound, of "i + 1"] obtain k b' where
        k: "findNextIndex ps off (i + 1) (i + 1 + int (length ps) - 1) = i + 1 + int k"
           "k < length ps" "Off (ps ! k) + int (length (cs ! k)) \<le> off"
           "blockOf e s (BlockPointer (ifp_BlockInfo (ps ! k))) = Some (FileBlk b')"
           "\<not> IsInd b'" "Contents b' = cs ! k" by blast
      have "findNextIndex (p # ps) off i (i + int (length (p # ps)) - 1) = i + int (Suc k)"
        using False lt k(1) by (simp add: add.commute add.left_commute)
      with k show ?thesis by (intro exI [of _ "Suc k"] exI [of _ b']) simp
    qed
  qed
qed simp_all

lemma descend_direct:
  "\<not> IsInd (l_block l) \<Longrightarrow> descend e file off rtype l s = Some (Inr l, s)"
  by (subst descend.simps) simp

lemma readLocked_loop_done:
  "\<not> nRead < int (length dest) \<Longrightarrow>
   readLocked_loop e file fblock off dest nRead s = Some (Inr (int (length dest)), dest, s)"
  by (subst readLocked_loop.simps) (simp add: Let_def)

lemma readLocked_loop_eof:
  assumes "getFileBlockAtOffsetLocked e file fblock (nRead + off) mdReadNeedIdentify s =
             Some (Inr l, s')"
      and "nRead + off \<ge> l_startOff l + int (length (Contents (l_block l)))"
      and "nRead < int (length dest)"
  shows "readLocked_loop e file fblock off dest nRead s = Some (Inr nRead, dest, s')"
  using assms by (subst readLocked_loop.simps) (simp add: Let_def)

lemma locate_eof:
  assumes fc: "fileContents e s file chunks"
      and tb: "blockOf e s (tailPointer file) = Some (FileBlk tb)"
      and off: "int (length (concat chunks)) \<le> off"
  shows "\<exists>l s'. getFileBlockAtOffsetLocked e file tb off rtype s = Some (Inr l, s') \<and>
           l_startOff l + int (length (Contents (l_block l))) \<le> off \<and>
           blockOf e s' = blockOf e s"
proof (cases "IsInd tb")
  case False
  with fc tb have "chunks = [Contents tb]" by (simp add: fileContents_def)
  with off False show ?thesis
    by (simp add: getFileBlockAtOffsetLocked_def descend_direct)
next
  case True
  with fc tb have ne: "IPtrs tb \<noteq> []" and wf: "wfChildren e s (IPtrs tb) 0 chunks"
    and v: "isValid file"
    by (simp_all add: fileContents_def)
  from findNextIndex_eof [OF wf ne, of off 0] off obtain k b where
    k: "findNextIndex (IPtrs tb) off 0 (int (length (IPtrs tb)) - 1) = int k" "k < length (IPtrs tb)"
       "Off (IPtrs tb ! k) + int (length (chunks ! k)) \<le> off"
       "blockOf e s (BlockPointer (ifp_BlockInfo (IPtrs tb ! k))) = Some (FileBlk b)"
       "\<not> IsInd b" "Contents b = chunks ! k" by auto
  from getFileBlockLocked_blockOf [OF k(4) v, of rtype] obtain s' where
    g: "getFileBlockLocked e (BlockPointer (ifp_BlockInfo (IPtrs tb ! k))) file rtype s = (Inr b, s')"
       "blockOf e s' = blockOf e s" by blast
  define l where "l = \<lparr>l_ptr = BlockPointer (ifp_BlockInfo (IPtrs tb ! k)),
                      l_parentBlock = Some tb, l_parentPtr = Some (tailPointer file),
                      l_indexInParent = k, l_block = b,
                      l_more = (int k \<noteq> int (length (IPtrs tb)) - 1),
                      l_startOff = Off (IPtrs tb ! k)\<rparr>"
  have loc: "getFileBlockAtOffsetLocked e file tb off rtype s =
          Some (Inr \<lparr>l_ptr = BlockPointer (ifp_BlockInfo (IPtrs tb ! k)),
                      l_parentBlock = Some tb, l_parentPtr = Some (tailPointer file),
                      l_indexInParent = k, l_block = b,
                      l_more = (int k \<noteq> int (length (IPtrs tb)) - 1),
                      l_startOff = Off (IPtrs tb ! k)\<rparr>, s')"
    unfolding getFileBlockAtOffsetLocked_def
    by (subst descend.simps) (use k(2) in \<open>simp add: True Let_def k(1) g(1) descend_direct k(5)\<close>)
  then have loc': "getFileBlockAtOffsetLocked e file tb off rtype s = Some (Inr l, s')"
    by (simp only: l_def)
  have le: "l_startOff l + int (length (Contents (l_block l))) \<le> off"
    using k(3) k(6) by (simp add: l_def)
  from loc' le g(2) show ?thesis by blast
qed

text \<open>
  C10. When the file at the path is well formed and \<open>off\<close> is at or beyond its end (the
  total length of its chunks), \<^verbatim>\<open>readLocked\<close> returns the count 0 with no error and the
  destination buffer as it was given.
\<close>

theorem C10_read_at_or_past_eof:
  assumes "fileContents e s file chunks" and "int (length (concat chunks)) \<le> off"
  shows "\<exists>s'. readLocked e file dest off s = Some (Inr 0, dest, s')"
proof -
  from assms(1) obtain tb where tb: "blockOf e s (tailPointer file) = Some (FileBlk tb)"
    and v: "isValid file"
    by (auto simp: fileContents_def split: option.splits Block.splits)
  from getFileBlockLocked_blockOf [OF tb v, of mdReadNeedIdentify] obtain s1 where
    g: "getFileLocked e file mdReadNeedIdentify s = (Inr tb, s1)" "blockOf e s1 = blockOf e s"
    by (auto simp: getFileLocked_def)
  have fc1: "fileContents e s1 file chunks" using assms(1) fileContents_cong [OF g(2)] by simp
  have tb1: "blockOf e s1 (tailPointer file) = Some (FileBlk tb)" using tb g(2) by simp
  show ?thesis
  proof (cases "0 < int (length dest)")
    case False
    then show ?thesis using g(1) by (simp add: readLocked_def readLocked_loop_done)
  next
    case True
    from locate_eof [OF fc1 tb1 assms(2), of mdReadNeedIdentify] obtain l s2 where
      l: "getFileBlockAtOffsetLocked e file tb off mdReadNeedIdentify s1 = Some (Inr l, s2)"
         "l_startOff l + int (length (Contents (l_block l))) \<le> off" by blast
    have "readLocked_loop e file tb off dest 0 s1 = Some (Inr 0, dest, s2)"
      by (rule readLocked_loop_eof) (use l True in simp_all)
    with g(1) show ?thesis by (simp add: readLocked_def)
  qed
qed


subsection \<open>A file of two blocks\<close>


definition ptrF :: BlockPointer where
  "ptrF = \<lparr>ID = 10, KeyGen = 1, DataVer = 1, Creator = 7, Writer = 0, RefNonce = 0\<rparr>"

definition ptrC1 :: BlockPointer where
  "ptrC1 = \<lparr>ID = 11, KeyGen = 1, DataVer = 1, Creator = 7, Writer = 0, RefNonce = 0\<rparr>"

definition ptrC2 :: BlockPointer where
  "ptrC2 = \<lparr>ID = 12, KeyGen = 1, DataVer = 1, Creator = 7, Writer = 0, RefNonce = 0\<rparr>"

definition fileR :: path where
  "fileR = \<lparr>p_FolderBranch = fb0,
            path_nodes = [\<lparr>pn_BlockPointer = ptr0, Name = ''''\<rparr>,
                          \<lparr>pn_BlockPointer = ptrF, Name = ''f''\<rparr>]\<rparr>"

definition blkTop :: FileBlock where
  "blkTop = \<lparr>IsInd = True, Contents = [],
             IPtrs = [\<lparr>ifp_BlockInfo = \<lparr>BlockPointer = ptrC1, EncodedSize = 0\<rparr>, Off = 0\<rparr>,
                      \<lparr>ifp_BlockInfo = \<lparr>BlockPointer = ptrC2, EncodedSize = 0\<rparr>, Off = 2\<rparr>]\<rparr>"

definition fboR :: fbo where
  "fboR = fboH\<lparr>dirtyCache :=
            [ptrF \<mapsto> FileBlk blkTop,
             ptrC1 \<mapsto> FileBlk \<lparr>IsInd = False, Contents = [1, 2], IPtrs = []\<rparr>,
             ptrC2 \<mapsto> FileBlk \<lparr>IsInd = False, Contents = [3], IPtrs = []\<rparr>]\<rparr>"

lemmas read_defs = ptrF_def ptrC1_def ptrC2_def fileR_def blkTop_def fboR_def
  fileContents_def blockOf_def bcache_Get_def IsValid_def isValid_def tailPointer_def

theorem C10_read_at_or_past_eof_witness:
  "fileContents env0 fboR fileR [[1, 2], [3]]
   \<and> int (length (concat [[1, 2], [3::byte]])) \<le> 3
   \<and> (\<exists>s'. readLocked env0 fileR [9, 9] 3 fboR = Some (Inr 0, [9, 9], s'))"
proof -
  have fc: "fileContents env0 fboR fileR [[1, 2], [3]]"
    by (simp add: read_defs concrete_defs)
  have le: "int (length (concat [[1, 2], [3::byte]])) \<le> 3" by simp
  from C10_read_at_or_past_eof [OF fc le, of "[9, 9]"] fc le show ?thesis by simp
qed


end
